theory Spec2Isabelle
  imports Complex_Main
begin

section \<open>Strings as the JavaScript source uses them\<close>

text \<open>
  A JavaScript string is modelled as a \<^typ>\<open>string\<close>. The two regular expressions of
  \<^verbatim>\<open>sanitizePath\<close> only look at the characters \<^verbatim>\<open>.\<close> and \<^verbatim>\<open>/\<close>, every other
  character is opaque to them.
\<close>

text \<open>\<^verbatim>\<open>path.replace(/\.\./g, "")\<close>: scanning from the left, every match of two adjacent
  dots is deleted and the scan goes on behind the match.\<close>

fun remove_dotdot :: "string \<Rightarrow> string" where
  "remove_dotdot (a # b # s) =
     (if a = CHR ''.'' \<and> b = CHR ''.'' then remove_dotdot s else a # remove_dotdot (b # s))"
| "remove_dotdot [a] = [a]"
| "remove_dotdot [] = []"

text \<open>\<^verbatim>\<open>.replace(/\/+/g, "/")\<close>: every maximal run of slashes becomes one slash.\<close>

fun collapse_slashes :: "string \<Rightarrow> string" where
  "collapse_slashes (a # b # s) =
     (if a = CHR ''/'' \<and> b = CHR ''/'' then collapse_slashes (b # s)
      else a # collapse_slashes (b # s))"
| "collapse_slashes [a] = [a]"
| "collapse_slashes [] = []"

text \<open>\<^verbatim>\<open>clean.startsWith("/")\<close>\<close>

definition startsWith_slash :: "string \<Rightarrow> bool" where
  "startsWith_slash s = (case s of [] \<Rightarrow> False | c # _ \<Rightarrow> c = CHR ''/'')"

text \<open>
  \<^verbatim>\<open>sanitizePath(path)\<close> of background.js. The argument is a string; the empty string is
  falsy and gives \<^verbatim>\<open>"/"\<close> at once.
\<close>

definition sanitizePath :: "string \<Rightarrow> string" where
  "sanitizePath path =
     (if path = [] then ''/''
      else let clean = collapse_slashes (remove_dotdot path)
           in if startsWith_slash clean then clean else CHR ''/'' # clean)"

text \<open>Two adjacent occurrences of the character \<open>c\<close> somewhere in a string.\<close>

fun has_adjacent :: "char \<Rightarrow> string \<Rightarrow> bool" where
  "has_adjacent c (a # b # s) = (if a = c \<and> b = c then True else has_adjacent c (b # s))"
| "has_adjacent c [a] = False"
| "has_adjacent c [] = False"

text \<open>The segments of a path: the pieces between its separators.\<close>

fun segments :: "string \<Rightarrow> string list" where
  "segments [] = [[]]"
| "segments (c # s) =
     (if c = CHR ''/'' then [] # segments s
      else (case segments s of [] \<Rightarrow> [[c]] | x # xs \<Rightarrow> (c # x) # xs))"

section \<open>Decimal digits and \<^verbatim>\<open>parseInt\<close>\<close>

definition digit_char :: "nat \<Rightarrow> char" where
  "digit_char d = char_of (48 + d)"

text \<open>The decimal digits of a natural number, most significant first.\<close>

fun digits_of :: "nat \<Rightarrow> string" where
  "digits_of n = (if n < 10 then [digit_char n] else digits_of (n div 10) @ [digit_char (n mod 10)])"

declare digits_of.simps [simp del]

definition is_digit :: "char \<Rightarrow> bool" where
  "is_digit c = (48 \<le> (of_char c :: nat) \<and> (of_char c :: nat) \<le> 57)"

definition digit_val :: "char \<Rightarrow> nat" where
  "digit_val c = of_char c - 48"

definition digits_value :: "string \<Rightarrow> nat" where
  "digits_value ds = foldl (\<lambda>acc c. 10 * acc + digit_val c) 0 ds"

text \<open>White space and line terminators that \<^verbatim>\<open>trim\<close>, \<^verbatim>\<open>parseInt\<close> and the conversion of a
  string to a number skip, among the 8-bit characters: tab, line feed, vertical tab, form
  feed, carriage return, space and no-break space.\<close>

definition is_js_space :: "char \<Rightarrow> bool" where
  "is_js_space c = ((of_char c :: nat) \<in> {9, 10, 11, 12, 13, 32, 160})"

text \<open>\<^verbatim>\<open>parseInt(s, 10)\<close> on a string: skip leading white space, read an optional sign, then
  the longest run of decimal digits, and ignore whatever follows; \<open>None\<close> is \<^verbatim>\<open>NaN\<close> (no
  digit found).\<close>

definition parseInt10 :: "string \<Rightarrow> int option" where
  "parseInt10 s =
     (let t = dropWhile is_js_space s;
          neg = (case t of [] \<Rightarrow> False | c # _ \<Rightarrow> c = CHR ''-'');
          u = (case t of [] \<Rightarrow> [] | c # r \<Rightarrow> if c = CHR ''-'' \<or> c = CHR ''+'' then r else t);
          ds = takeWhile is_digit u;
          v = int (foldl (\<lambda>acc c. 10 * acc + digit_val c) 0 ds)
      in if ds = [] then None else Some (if neg then - v else v))"

section \<open>White space and trailing slashes\<close>

text \<open>\<^verbatim>\<open>s.trim()\<close> and \<^verbatim>\<open>s.replace(/\/+$/, "")\<close>\<close>

definition trim :: "string \<Rightarrow> string" where
  "trim s = rev (dropWhile is_js_space (rev (dropWhile is_js_space s)))"

definition strip_trailing_slashes :: "string \<Rightarrow> string" where
  "strip_trailing_slashes s = rev (dropWhile (\<lambda>c. c = CHR ''/'') (rev s))"

text \<open>\<^verbatim>\<open>s.includes(t)\<close>: \<open>t\<close> occurs in \<open>s\<close>.\<close>

fun str_includes :: "string \<Rightarrow> string \<Rightarrow> bool" where
  "str_includes [] t = (t = [])"
| "str_includes (c # s) t = (if take (length t) (c # s) = t then True else str_includes s t)"

section \<open>JavaScript values and the expiry bound\<close>

text \<open>
  A JavaScript number is \<^verbatim>\<open>NaN\<close>, an infinity with its sign, or a finite number. A finite
  number is represented by the decimal that \<^verbatim>\<open>Number::toString\<close> prints for it, which is
  the shortest decimal that reads back as the same number: \<open>Finite neg s e\<close> stands for
  \<open>s * 10^e\<close>, negated when \<open>neg\<close> holds; \<open>s = 0\<close> gives the two zeros. A comparison of the
  number with 0, 1, 365 or \<open>10^21\<close> has the same outcome on that decimal: each of these
  bounds is itself a number, and the decimal reads back as the number it was printed for.
\<close>

datatype js_number = NaN | Infinity bool | Finite bool nat int

definition number_of_int :: "int \<Rightarrow> js_number" where
  "number_of_int i = Finite (i < 0) (nat \<bar>i\<bar>) 0"

text \<open>The digits without trailing zeros: \<open>normalise s e = (m, e')\<close> has \<open>m * 10^e' = s * 10^e\<close>
  and the last digit of \<open>m\<close> is not zero.\<close>

fun normalise :: "nat \<Rightarrow> int \<Rightarrow> nat \<times> int" where
  "normalise s e = (if s = 0 then (0, e)
                    else if s mod 10 = 0 then normalise (s div 10) (e + 1)
                    else (s, e))"

declare normalise.simps [simp del]

text \<open>\<^verbatim>\<open>Number::toString\<close> of a positive number with the digits \<open>ds\<close> (there are \<open>k\<close> of them)
  and the decimal point after the \<open>n\<close>-th digit: the digits followed by zeros when
  \<open>k \<le> n \<le> 21\<close>, a decimal point inside the digits when \<open>0 < n \<le> 21\<close>, \<^verbatim>\<open>0.\<close> and zeros
  before the digits when \<open>-6 < n \<le> 0\<close>, and exponent notation otherwise.\<close>

definition exponent_notation :: "string \<Rightarrow> int \<Rightarrow> string" where
  "exponent_notation ds n =
     (if length ds = 1 then ds else hd ds # CHR ''.'' # tl ds)
     @ ''e'' @ (if 0 < n - 1 then ''+'' else ''-'') @ digits_of (nat \<bar>n - 1\<bar>)"

definition decimal_notation :: "string \<Rightarrow> int \<Rightarrow> string" where
  "decimal_notation ds n =
     (let k = int (length ds) in
      if k \<le> n \<and> n \<le> 21 then ds @ replicate (nat (n - k)) CHR ''0''
      else if 0 < n \<and> n \<le> 21 then take (nat n) ds @ ''.'' @ drop (nat n) ds
      else if - 6 < n \<and> n \<le> 0 then ''0.'' @ replicate (nat (- n)) CHR ''0'' @ ds
      else exponent_notation ds n)"

definition number_to_string :: "js_number \<Rightarrow> string" where
  "number_to_string x =
     (case x of
        NaN \<Rightarrow> ''NaN''
      | Infinity neg \<Rightarrow> (if neg then ''-Infinity'' else ''Infinity'')
      | Finite neg s e \<Rightarrow>
          if s = 0 then ''0''
          else let (m, e') = normalise s e;
                   ds = digits_of m;
                   body = decimal_notation ds (int (length ds) + e')
               in if neg then CHR ''-'' # body else body)"

text \<open>The primitive values an option can hold; \<open>JsUndefined\<close> is also the value of a property
  that is absent.\<close>

datatype js_value = JsUndefined | JsNull | JsBoolean bool | JsNumber js_number | JsString string

text \<open>\<^verbatim>\<open>String(v)\<close>, the first step of \<^verbatim>\<open>parseInt(v, 10)\<close>\<close>

definition js_ToString :: "js_value \<Rightarrow> string" where
  "js_ToString v =
     (case v of
        JsUndefined \<Rightarrow> ''undefined''
      | JsNull \<Rightarrow> ''null''
      | JsBoolean b \<Rightarrow> (if b then ''true'' else ''false'')
      | JsNumber x \<Rightarrow> number_to_string x
      | JsString s \<Rightarrow> s)"

text \<open>The value counts as true in a condition.\<close>

definition truthy :: "js_value \<Rightarrow> bool" where
  "truthy v =
     (case v of
        JsUndefined \<Rightarrow> False
      | JsNull \<Rightarrow> False
      | JsBoolean b \<Rightarrow> b
      | JsNumber x \<Rightarrow> (case x of NaN \<Rightarrow> False | Infinity _ \<Rightarrow> True | Finite _ s _ \<Rightarrow> s \<noteq> 0)
      | JsString s \<Rightarrow> s \<noteq> [])"

definition number_positive :: "js_number \<Rightarrow> bool" where
  "number_positive x =
     (case x of NaN \<Rightarrow> False | Infinity neg \<Rightarrow> \<not> neg | Finite neg s _ \<Rightarrow> \<not> neg \<and> s \<noteq> 0)"

text \<open>
  \<^verbatim>\<open>v > 0\<close> converts a string to a number first. The trimmed string is a literal with a
  radix prefix (\<^verbatim>\<open>0x\<close>, \<^verbatim>\<open>0o\<close>, \<^verbatim>\<open>0b\<close>, no sign allowed), or an optional sign followed by
  \<^verbatim>\<open>Infinity\<close> or by a decimal literal: digits, an optional point and more digits, an
  optional exponent. Anything else is \<^verbatim>\<open>NaN\<close>, and the empty string is 0. A decimal literal
  of value at most \<open>2^-1075\<close>, half the smallest positive number, is rounded to 0.
\<close>

definition is_hex_digit :: "char \<Rightarrow> bool" where
  "is_hex_digit c = (is_digit c \<or> (65 \<le> (of_char c :: nat) \<and> (of_char c :: nat) \<le> 70)
                               \<or> (97 \<le> (of_char c :: nat) \<and> (of_char c :: nat) \<le> 102))"

definition is_octal_digit :: "char \<Rightarrow> bool" where
  "is_octal_digit c = (48 \<le> (of_char c :: nat) \<and> (of_char c :: nat) \<le> 55)"

definition is_binary_digit :: "char \<Rightarrow> bool" where
  "is_binary_digit c = (c = CHR ''0'' \<or> c = CHR ''1'')"

definition radix_literal_positive :: "string \<Rightarrow> bool" where
  "radix_literal_positive t =
     (case t of
        c0 # c1 # ds \<Rightarrow>
          c0 = CHR ''0'' \<and> ds \<noteq> [] \<and> list_ex (\<lambda>c. c \<noteq> CHR ''0'') ds \<and>
          ((c1 = CHR ''x'' \<or> c1 = CHR ''X'') \<and> list_all is_hex_digit ds
           \<or> (c1 = CHR ''o'' \<or> c1 = CHR ''O'') \<and> list_all is_octal_digit ds
           \<or> (c1 = CHR ''b'' \<or> c1 = CHR ''B'') \<and> list_all is_binary_digit ds)
      | _ \<Rightarrow> False)"

text \<open>The exponent of a decimal literal: \<open>Some 0\<close> when there is none, \<open>None\<close> when what
  follows the digits is not an exponent.\<close>

definition exponent_part :: "string \<Rightarrow> int option" where
  "exponent_part r =
     (case r of
        [] \<Rightarrow> Some 0
      | c # r1 \<Rightarrow>
          if c = CHR ''e'' \<or> c = CHR ''E'' then
            (let neg = (case r1 of [] \<Rightarrow> False | d # _ \<Rightarrow> d = CHR ''-'');
                 ds = (case r1 of [] \<Rightarrow> []
                       | d # r2 \<Rightarrow> if d = CHR ''-'' \<or> d = CHR ''+'' then r2 else r1)
             in if ds \<noteq> [] \<and> list_all is_digit ds
                then Some (if neg then - int (digits_value ds) else int (digits_value ds))
                else None)
          else None)"

definition decimal_literal_positive :: "string \<Rightarrow> bool" where
  "decimal_literal_positive u =
     (let d1 = takeWhile is_digit u;
          r1 = dropWhile is_digit u;
          has_point = (case r1 of [] \<Rightarrow> False | c # _ \<Rightarrow> c = CHR ''.'');
          d2 = (if has_point then takeWhile is_digit (tl r1) else []);
          r2 = (if has_point then dropWhile is_digit (tl r1) else r1);
          m = digits_value (d1 @ d2)
      in case exponent_part r2 of
           None \<Rightarrow> False
         | Some x \<Rightarrow>
             (d1 \<noteq> [] \<or> d2 \<noteq> []) \<and> m \<noteq> 0 \<and>
             (let k = x - int (length d2)
              in 0 \<le> k \<or> 10 ^ nat (- k) < m * 2 ^ 1075))"

definition string_positive :: "string \<Rightarrow> bool" where
  "string_positive s =
     (let t = trim s in
      if radix_literal_positive t then True
      else case t of
             [] \<Rightarrow> False
           | c # r \<Rightarrow>
               if c = CHR ''-'' then False
               else let u = (if c = CHR ''+'' then r else t)
                    in u = ''Infinity'' \<or> decimal_literal_positive u)"

text \<open>\<^verbatim>\<open>v > 0\<close>\<close>

definition greater_than_zero :: "js_value \<Rightarrow> bool" where
  "greater_than_zero v =
     (case v of
        JsUndefined \<Rightarrow> False
      | JsNull \<Rightarrow> False
      | JsBoolean b \<Rightarrow> b
      | JsNumber x \<Rightarrow> number_positive x
      | JsString s \<Rightarrow> string_positive s)"

text \<open>\<^verbatim>\<open>validatePositiveInt(value, max = 365, fallback = 0)\<close>\<close>

definition validatePositiveInt :: "js_value \<Rightarrow> int \<Rightarrow> int \<Rightarrow> int" where
  "validatePositiveInt v mx fallback =
     (case parseInt10 (js_ToString v) of
        None \<Rightarrow> fallback
      | Some num \<Rightarrow> if num < 0 then fallback else min num mx)"

text \<open>The \<^verbatim>\<open>options\<close> argument of \<^verbatim>\<open>createShareLink\<close> and the JSON body it transmits. A body
  field that is \<open>None\<close> is absent from the object.\<close>

record share_link_options =
  opt_password :: "string option"
  opt_expireDays :: js_value

record share_link_body =
  repo_id :: string
  path :: string
  password :: "string option"
  expire_days :: "int option"

text \<open>The body built in the first lines of \<^verbatim>\<open>createShareLink\<close>, before the request. The
  expiry is set under the guard \<^verbatim>\<open>options.expireDays && options.expireDays > 0\<close>.\<close>

definition createShareLink_body :: "string \<Rightarrow> string \<Rightarrow> share_link_options \<Rightarrow> share_link_body" where
  "createShareLink_body repoId p options =
     \<lparr> repo_id = repoId,
       path = sanitizePath p,
       password = (case opt_password options of
                     None \<Rightarrow> None
                   | Some pw \<Rightarrow> if 0 < length pw then Some pw else None),
       expire_days = (if truthy (opt_expireDays options) \<and> greater_than_zero (opt_expireDays options)
                      then Some (validatePositiveInt (opt_expireDays options) 365 0)
                      else None) \<rparr>"

section \<open>JSON values\<close>

datatype json =
    JNull
  | JBool bool
  | JNum int
  | JStr string
  | JArr "json list"
  | JObj "(string \<times> json) list"

text \<open>Exceptions: a \<^verbatim>\<open>SeafileError\<close> with its code, an \<^verbatim>\<open>Error\<close> thrown by the
  login-manager experiment API, and the errors the runtime itself raises: a property read
  on \<^verbatim>\<open>null\<close> or a call of something that is no function (\<open>TypeError\<close>), a response body
  that is not JSON (\<open>SyntaxError\<close>), a rejected \<^verbatim>\<open>fetch\<close> (\<open>NetworkError\<close>).\<close>

datatype error_code =
    INVALID_URL | TWO_FA_INVALID | TWO_FA_REQUIRED | AUTH_FAILED | LIST_REPOS_FAILED
  | MKDIR_FAILED | UPLOAD_LINK_FAILED | UPLOAD_LINK_UNTRUSTED | UPLOAD_LINK_INVALID
  | UPLOAD_FAILED | SHARE_LINK_FAILED | ACCOUNT_INFO_FAILED | NO_CONFIG | NO_CREDENTIALS

datatype lm_error =
    HostnameEmpty | InvalidHostname | UnsupportedScheme
  | RealmEmpty | RealmNotAllowed | UsernameEmpty | PasswordNotString

datatype exn =
    SeafileError error_code
  | LoginManagerError lm_error
  | TypeError
  | SyntaxError
  | NetworkError

text \<open>\<^verbatim>\<open>v.name\<close> for a decoded JSON value: a \<open>TypeError\<close> on \<^verbatim>\<open>null\<close>, the member of an
  object, \<^verbatim>\<open>undefined\<close> (\<open>None\<close>) otherwise; the members that strings, numbers and arrays
  inherit from their prototypes are not modelled.\<close>

definition get_prop :: "json \<Rightarrow> string \<Rightarrow> exn + json option" where
  "get_prop v name =
     (case v of
        JNull \<Rightarrow> Inl TypeError
      | JObj kvs \<Rightarrow> Inr (map_of kvs name)
      | _ \<Rightarrow> Inr None)"

definition falsy :: "json \<Rightarrow> bool" where
  "falsy v = (v = JNull \<or> v = JBool False \<or> v = JNum 0 \<or> v = JStr [])"

text \<open>A token read from a response is kept when it is a string; any other value is kept
  as \<open>None\<close>, which \<^verbatim>\<open>saveSecret\<close> treats like a missing one.\<close>

definition as_string :: "json option \<Rightarrow> string option" where
  "as_string v = (case v of Some (JStr s) \<Rightarrow> Some s | _ \<Rightarrow> None)"

text \<open>\<^verbatim>\<open>String(v)\<close> for a decoded JSON value.\<close>

fun join_comma :: "string list \<Rightarrow> string" where
  "join_comma [] = []"
| "join_comma [x] = x"
| "join_comma (x # y # xs) = x @ '','' @ join_comma (y # xs)"

fun js_String :: "json \<Rightarrow> string" where
  "js_String JNull = ''null''"
| "js_String (JBool b) = (if b then ''true'' else ''false'')"
| "js_String (JNum n) = number_to_string (number_of_int n)"
| "js_String (JStr s) = s"
| "js_String (JArr xs) = join_comma (map (\<lambda>x. if x = JNull then [] else js_String x) xs)"
| "js_String (JObj kvs) = ''[object Object]''"

section \<open>The host platform\<close>

text \<open>
  Three services of the host are outside the repository and are parameters of the model:
  the URL parser behind \<^verbatim>\<open>new URL(s)\<close> (\<open>None\<close> when it throws), the parser behind
  \<^verbatim>\<open>Services.io.newURI(s)\<close>, and the network behind \<^verbatim>\<open>fetch\<close>, which answers a request
  depending on the requests sent before it.
\<close>

record url =
  protocol :: string
  hostname :: string
  origin :: string

record nsIURI =
  scheme :: string
  prePath :: string

record response =
  status :: nat
  body :: "json option"

text \<open>\<^verbatim>\<open>response.ok\<close>\<close>

definition ok :: "response \<Rightarrow> bool" where
  "ok r = (200 \<le> status r \<and> status r \<le> 299)"

datatype fetch_result = Rejected | Response response

datatype abort_signal = AbortSignal bool

record upload_file =
  file_name :: string
  file_data :: string

text \<open>The requests the client sends, by operation: the server or link they go to, the
  token of the \<^verbatim>\<open>Authorization\<close> header, and their arguments.\<close>

datatype request =
    AuthTokenReq string string string "string option"
  | PingReq string "string option"
  | MkdirReq string "string option" string string
  | UploadLinkReq string "string option" string string
  | UploadReq string "string option" string upload_file "abort_signal option"
  | ShareLinkReq string "string option" share_link_body
  | DeleteFileReq string "string option" string string

record platform =
  URL :: "string \<Rightarrow> url option"
  newURI :: "string \<Rightarrow> nsIURI option"
  network :: "request list \<Rightarrow> request \<Rightarrow> fetch_result"

section \<open>The state of the extension\<close>

text \<open>An instance of \<^verbatim>\<open>class SeafileAPI\<close>.\<close>

record api =
  serverUrl :: string
  token :: "string option"

text \<open>The account configuration kept in \<^verbatim>\<open>messenger.storage.local\<close>.\<close>

record config =
  cfg_serverUrl :: string
  cfg_username :: string
  repoId :: string
  repoName :: string
  uploadDir :: string
  shareLinkExpireDays :: int
  hasShareLinkPassword :: bool

text \<open>An entry of the \<^verbatim>\<open>uploadedFiles\<close> table.\<close>

record upload_record =
  rec_repoId :: string
  filePath :: string
  accountId :: string
  shareLinkToken :: "json option"

text \<open>A login of the host's login manager, and the calls made to the login manager.\<close>

record login =
  login_origin :: string
  httpRealm :: string
  login_username :: string
  login_password :: string

datatype lm_call =
    SearchLogins string string
  | RemoveLogin login
  | AddLogin login

record world =
  storage :: "string \<rightharpoonup> config"
  apiCache :: "string \<rightharpoonup> api"
  uploadedFiles :: "nat \<rightharpoonup> upload_record"
  logins :: "login list"
  lm_calls :: "lm_call list"
  sent :: "request list"

text \<open>An asynchronous function runs in a world, and either throws or returns a value.\<close>

type_synonym 'a io = "world \<Rightarrow> (exn + 'a) \<times> world"

definition io_return :: "'a \<Rightarrow> 'a io" where
  "io_return x = (\<lambda>w. (Inr x, w))"

definition io_throw :: "exn \<Rightarrow> 'a io" where
  "io_throw e = (\<lambda>w. (Inl e, w))"

definition io_bind :: "'a io \<Rightarrow> ('a \<Rightarrow> 'b io) \<Rightarrow> 'b io" where
  "io_bind m f = (\<lambda>w. case m w of (Inl e, w') \<Rightarrow> (Inl e, w') | (Inr x, w') \<Rightarrow> f x w')"

text \<open>\<^verbatim>\<open>try { m } catch (e) { h(e) }\<close>\<close>

definition io_catch :: "'a io \<Rightarrow> (exn \<Rightarrow> 'a io) \<Rightarrow> 'a io" where
  "io_catch m h = (\<lambda>w. case m w of (Inl e, w') \<Rightarrow> h e w' | (Inr x, w') \<Rightarrow> (Inr x, w'))"

text \<open>A pure step that may throw.\<close>

definition io_lift :: "exn + 'a \<Rightarrow> 'a io" where
  "io_lift r = (\<lambda>w. (r, w))"

text \<open>\<^verbatim>\<open>fetch\<close>: the request is recorded and the network answers it; a rejected promise is
  a \<open>NetworkError\<close>.\<close>

definition fetch :: "platform \<Rightarrow> request \<Rightarrow> response io" where
  "fetch P req = (\<lambda>w.
     case network P (sent w) req of
       Rejected \<Rightarrow> (Inl NetworkError, w\<lparr>sent := sent w @ [req]\<rparr>)
     | Response r \<Rightarrow> (Inr r, w\<lparr>sent := sent w @ [req]\<rparr>))"

text \<open>\<^verbatim>\<open>response.json()\<close>\<close>

definition response_json :: "response \<Rightarrow> json io" where
  "response_json r = (case body r of None \<Rightarrow> io_throw SyntaxError | Some j \<Rightarrow> io_return j)"

section \<open>Input validation of background.js\<close>

text \<open>\<^verbatim>\<open>validateServerUrl(url)\<close>: the empty string is falsy; the warning logged for an
  \<^verbatim>\<open>http:\<close> URL has no effect on the result.\<close>

definition validateServerUrl :: "platform \<Rightarrow> string \<Rightarrow> exn + string" where
  "validateServerUrl P u =
     (if u = [] then Inl (SeafileError INVALID_URL)
      else case URL P (strip_trailing_slashes (trim u)) of
             None \<Rightarrow> Inl (SeafileError INVALID_URL)
           | Some parsed \<Rightarrow>
               if protocol parsed \<noteq> ''https:'' \<and> protocol parsed \<noteq> ''http:''
               then Inl (SeafileError INVALID_URL)
               else Inr (origin parsed))"

section \<open>The login-manager experiment API\<close>

definition ALLOWED_REALMS :: "string list" where
  "ALLOWED_REALMS = [''Seafile FileLink'', ''Seafile FileLink Token'', ''Seafile FileLink SharePW'']"

definition validateHostname :: "platform \<Rightarrow> string \<Rightarrow> lm_error + string" where
  "validateHostname P h =
     (if h = [] then Inl HostnameEmpty
      else case newURI P (strip_trailing_slashes (trim h)) of
             None \<Rightarrow> Inl InvalidHostname
           | Some uri \<Rightarrow>
               if scheme uri \<noteq> ''https'' \<and> scheme uri \<noteq> ''http''
               then Inl UnsupportedScheme
               else Inr (prePath uri))"

definition validateRealm :: "string \<Rightarrow> lm_error + string" where
  "validateRealm realm =
     (if realm = [] then Inl RealmEmpty
      else if realm \<in> set ALLOWED_REALMS then Inr realm
      else Inl RealmNotAllowed)"

text \<open>
  The host's login manager (\<^verbatim>\<open>nsILoginManager\<close>) is outside the repository. It is
  modelled as the specification describes the secret vault: a store of logins that can
  be searched by origin and realm, from which a stored login can be removed, and to which
  a login can be added. Every call is recorded in \<open>lm_calls\<close>.
\<close>

definition lm_searchLogins :: "string \<Rightarrow> string \<Rightarrow> login list io" where
  "lm_searchLogins orig realm = (\<lambda>w.
     (Inr (filter (\<lambda>l. login_origin l = orig \<and> httpRealm l = realm) (logins w)),
      w\<lparr>lm_calls := lm_calls w @ [SearchLogins orig realm]\<rparr>))"

definition lm_removeLogin :: "login \<Rightarrow> unit io" where
  "lm_removeLogin l = (\<lambda>w.
     (Inr (), w\<lparr>logins := remove1 l (logins w), lm_calls := lm_calls w @ [RemoveLogin l]\<rparr>))"

definition lm_addLogin :: "login \<Rightarrow> unit io" where
  "lm_addLogin l = (\<lambda>w.
     (Inr (), w\<lparr>logins := logins w @ [l], lm_calls := lm_calls w @ [AddLogin l]\<rparr>))"

text \<open>\<^verbatim>\<open>findLoginsForRealm\<close>: the search, through whichever entry point of the login
  manager is available.\<close>

definition findLoginsForRealm :: "string \<Rightarrow> string \<Rightarrow> login list io" where
  "findLoginsForRealm orig safeRealm = lm_searchLogins orig safeRealm"

text \<open>The loop of \<^verbatim>\<open>saveCredentials\<close>: remove the logins of that user name.\<close>

fun remove_logins_of :: "string \<Rightarrow> login list \<Rightarrow> unit io" where
  "remove_logins_of username [] = io_return ()"
| "remove_logins_of username (l # ls) =
     io_bind (if login_username l = username then lm_removeLogin l else io_return ())
       (\<lambda>_. remove_logins_of username ls)"

text \<open>The loop of \<^verbatim>\<open>removeCredentials\<close>: remove every login found.\<close>

fun remove_all_logins :: "login list \<Rightarrow> unit io" where
  "remove_all_logins [] = io_return ()"
| "remove_all_logins (l # ls) = io_bind (lm_removeLogin l) (\<lambda>_. remove_all_logins ls)"

text \<open>\<^verbatim>\<open>saveCredentials(hostname, realm, username, password)\<close>; a password that is
  \<open>None\<close> is \<^verbatim>\<open>null\<close>, \<^verbatim>\<open>undefined\<close> or not a string.\<close>

definition saveCredentials :: "platform \<Rightarrow> string \<Rightarrow> string \<Rightarrow> string \<Rightarrow> string option \<Rightarrow> bool io" where
  "saveCredentials P h realm username pw =
     (case validateHostname P h of
        Inl e \<Rightarrow> io_throw (LoginManagerError e)
      | Inr orig \<Rightarrow>
     (case validateRealm realm of
        Inl e \<Rightarrow> io_throw (LoginManagerError e)
      | Inr safeRealm \<Rightarrow>
     if username = [] then io_throw (LoginManagerError UsernameEmpty)
     else (case pw of
        None \<Rightarrow> io_throw (LoginManagerError PasswordNotString)
      | Some secret \<Rightarrow>
          io_bind (findLoginsForRealm orig safeRealm) (\<lambda>existing.
          io_bind (remove_logins_of username existing) (\<lambda>_.
          io_bind (lm_addLogin \<lparr> login_origin = orig, httpRealm = safeRealm,
                                 login_username = username, login_password = secret \<rparr>) (\<lambda>_.
          io_return True))))))"

record credentials =
  cred_username :: string
  cred_password :: string

definition getCredentials :: "platform \<Rightarrow> string \<Rightarrow> string \<Rightarrow> credentials option io" where
  "getCredentials P h realm =
     (case validateHostname P h of
        Inl e \<Rightarrow> io_throw (LoginManagerError e)
      | Inr orig \<Rightarrow>
     (case validateRealm realm of
        Inl e \<Rightarrow> io_throw (LoginManagerError e)
      | Inr safeRealm \<Rightarrow>
          io_bind (findLoginsForRealm orig safeRealm) (\<lambda>found.
            case found of
              [] \<Rightarrow> io_return None
            | l # _ \<Rightarrow> io_return (Some \<lparr> cred_username = login_username l,
                                          cred_password = login_password l \<rparr>))))"

definition removeCredentials :: "platform \<Rightarrow> string \<Rightarrow> string \<Rightarrow> bool io" where
  "removeCredentials P h realm =
     (case validateHostname P h of
        Inl e \<Rightarrow> io_throw (LoginManagerError e)
      | Inr orig \<Rightarrow>
     (case validateRealm realm of
        Inl e \<Rightarrow> io_throw (LoginManagerError e)
      | Inr safeRealm \<Rightarrow>
          io_bind (findLoginsForRealm orig safeRealm) (\<lambda>found.
          io_bind (remove_all_logins found) (\<lambda>_. io_return True))))"

section \<open>The secret helpers of background.js\<close>

definition REALMS_PASSWORD :: string where "REALMS_PASSWORD = ''Seafile FileLink''"
definition REALMS_TOKEN :: string where "REALMS_TOKEN = ''Seafile FileLink Token''"
definition REALMS_SHARE_PW :: string where "REALMS_SHARE_PW = ''Seafile FileLink SharePW''"

definition saveSecret :: "platform \<Rightarrow> string \<Rightarrow> string \<Rightarrow> string \<Rightarrow> string option \<Rightarrow> unit io" where
  "saveSecret P srv realm key v =
     (case v of
        None \<Rightarrow> io_return ()
      | Some s \<Rightarrow> if s = [] then io_return ()
                  else io_bind (saveCredentials P srv realm key (Some s)) (\<lambda>_. io_return ()))"

definition getSecret :: "platform \<Rightarrow> string \<Rightarrow> string \<Rightarrow> string option io" where
  "getSecret P srv realm =
     io_bind (getCredentials P srv realm) (\<lambda>result.
       io_return (case result of None \<Rightarrow> None | Some c \<Rightarrow> Some (cred_password c)))"

section \<open>The Seafile API client\<close>

text \<open>\<^verbatim>\<open>new SeafileAPI(serverUrl)\<close>\<close>

definition new_SeafileAPI :: "platform \<Rightarrow> string \<Rightarrow> exn + api" where
  "new_SeafileAPI P srv =
     (case validateServerUrl P srv of
        Inl e \<Rightarrow> Inl e
      | Inr u \<Rightarrow> Inr \<lparr> serverUrl = u, token = None \<rparr>)"

text \<open>The one-time code: \<^verbatim>\<open>/^\d{6}$/\<close>\<close>

definition valid_otp :: "string \<Rightarrow> bool" where
  "valid_otp s = (length s = 6 \<and> list_all is_digit s)"

text \<open>\<^verbatim>\<open>errors.some((e) => e.includes(t))\<close> on the elements of a decoded array: a string has
  the substring test, an array the membership test, anything else has no \<^verbatim>\<open>includes\<close>.\<close>

fun some_includes :: "json list \<Rightarrow> string \<Rightarrow> exn + bool" where
  "some_includes [] t = Inr False"
| "some_includes (e # es) t =
     (case e of
        JStr s \<Rightarrow> if str_includes s t then Inr True else some_includes es t
      | JArr xs \<Rightarrow> if JStr t \<in> set xs then Inr True else some_includes es t
      | _ \<Rightarrow> Inl TypeError)"

text \<open>\<^verbatim>\<open>errorData.non_field_errors || []\<close>, where \<^verbatim>\<open>errorData\<close> is the decoded body or
  \<^verbatim>\<open>{}\<close> when the body is not JSON.\<close>

definition non_field_errors :: "response \<Rightarrow> exn + json list" where
  "non_field_errors r =
     (case body r of
        None \<Rightarrow> Inr []
      | Some errorData \<Rightarrow>
          (case get_prop errorData ''non_field_errors'' of
             Inl e \<Rightarrow> Inl e
           | Inr None \<Rightarrow> Inr []
           | Inr (Some v) \<Rightarrow>
               if falsy v then Inr []
               else (case v of JArr es \<Rightarrow> Inr es | _ \<Rightarrow> Inl TypeError)))"

text \<open>What \<^verbatim>\<open>authenticate\<close> throws for a response that is not ok.\<close>

definition auth_failure :: "response \<Rightarrow> exn" where
  "auth_failure r =
     (case non_field_errors r of
        Inl e \<Rightarrow> e
      | Inr errors \<Rightarrow>
          (case some_includes errors ''Two factor auth token is missing'' of
             Inl e \<Rightarrow> e
           | Inr missing \<Rightarrow>
               if missing then SeafileError TWO_FA_REQUIRED
               else (case some_includes errors ''Two factor auth token'' of
                       Inl e \<Rightarrow> e
                     | Inr invalid \<Rightarrow>
                         if invalid then SeafileError TWO_FA_INVALID
                         else SeafileError AUTH_FAILED)))"

text \<open>\<^verbatim>\<open>authenticate(username, password, otpToken = null)\<close>. The method stores the token in
  the instance: the model returns the instance with its token set.\<close>

definition authenticate :: "platform \<Rightarrow> api \<Rightarrow> string \<Rightarrow> string \<Rightarrow> string option \<Rightarrow> api io" where
  "authenticate P a username pw otpToken =
     (case (case otpToken of
              None \<Rightarrow> Inr None
            | Some otp \<Rightarrow> if otp = [] then Inr None
                          else if valid_otp otp then Inr (Some otp)
                          else Inl (SeafileError TWO_FA_INVALID)) of
        Inl e \<Rightarrow> io_throw e
      | Inr otp_header \<Rightarrow>
          io_bind (fetch P (AuthTokenReq (serverUrl a) username pw otp_header)) (\<lambda>response.
            if \<not> ok response then io_throw (auth_failure response)
            else io_bind (response_json response) (\<lambda>data.
                   case get_prop data ''token'' of
                     Inl e \<Rightarrow> io_throw e
                   | Inr t \<Rightarrow> io_return (a\<lparr>token := as_string t\<rparr>))))"

text \<open>\<^verbatim>\<open>ping()\<close>: \<^verbatim>\<open>_request\<close> returns the promise of \<^verbatim>\<open>fetch\<close>.\<close>

definition ping :: "platform \<Rightarrow> api \<Rightarrow> bool io" where
  "ping P a = io_bind (fetch P (PingReq (serverUrl a) (token a))) (\<lambda>response. io_return (ok response))"

definition ensureDirectory :: "platform \<Rightarrow> api \<Rightarrow> string \<Rightarrow> string \<Rightarrow> unit io" where
  "ensureDirectory P a repo p =
     (let safePath = sanitizePath p in
      io_bind (fetch P (MkdirReq (serverUrl a) (token a) repo safePath)) (\<lambda>response.
        if \<not> ok response \<and> status response \<noteq> 409 \<and> status response \<noteq> 400
        then io_throw (SeafileError MKDIR_FAILED)
        else io_return ()))"

definition getUploadLink :: "platform \<Rightarrow> api \<Rightarrow> string \<Rightarrow> string \<Rightarrow> string io" where
  "getUploadLink P a repo parentDir =
     (let safePath = sanitizePath parentDir in
      io_bind (fetch P (UploadLinkReq (serverUrl a) (token a) repo safePath)) (\<lambda>response.
        if \<not> ok response then io_throw (SeafileError UPLOAD_LINK_FAILED)
        else io_bind (response_json response) (\<lambda>link.
          let linkStr = (case link of JStr s \<Rightarrow> s | _ \<Rightarrow> js_String link) in
          (case URL P linkStr of
             None \<Rightarrow> io_throw (SeafileError UPLOAD_LINK_INVALID)
           | Some uploadUrl \<Rightarrow>
               (case URL P (serverUrl a) of
                  None \<Rightarrow> io_throw (SeafileError UPLOAD_LINK_INVALID)
                | Some server \<Rightarrow>
                    if hostname uploadUrl \<noteq> hostname server
                    then io_throw (SeafileError UPLOAD_LINK_UNTRUSTED)
                    else io_return linkStr)))))"

definition uploadFile :: "platform \<Rightarrow> api \<Rightarrow> string \<Rightarrow> string \<Rightarrow> upload_file \<Rightarrow> abort_signal option \<Rightarrow> json io" where
  "uploadFile P a uploadLink parentDir f abortSignal =
     io_bind (fetch P (UploadReq (uploadLink @ ''?ret-json=1'') (token a)
                         (sanitizePath parentDir) f abortSignal)) (\<lambda>response.
       if \<not> ok response then io_throw (SeafileError UPLOAD_FAILED)
       else response_json response)"

definition createShareLink :: "platform \<Rightarrow> api \<Rightarrow> string \<Rightarrow> string \<Rightarrow> share_link_options \<Rightarrow> json io" where
  "createShareLink P a repo p options =
     io_bind (fetch P (ShareLinkReq (serverUrl a) (token a) (createShareLink_body repo p options)))
       (\<lambda>response.
          if \<not> ok response then io_throw (SeafileError SHARE_LINK_FAILED)
          else response_json response)"

definition deleteFile :: "platform \<Rightarrow> api \<Rightarrow> string \<Rightarrow> string \<Rightarrow> bool io" where
  "deleteFile P a repo p =
     (let safePath = sanitizePath p in
      io_bind (fetch P (DeleteFileReq (serverUrl a) (token a) repo safePath)) (\<lambda>response.
        io_return (ok response)))"

section \<open>Account and token management\<close>

definition loadAccountConfig :: "string \<Rightarrow> config option io" where
  "loadAccountConfig account = (\<lambda>w. (Inr (storage w account), w))"

definition apiCache_set :: "string \<Rightarrow> api \<Rightarrow> unit io" where
  "apiCache_set account a = (\<lambda>w. (Inr (), w\<lparr>apiCache := (apiCache w)(account \<mapsto> a)\<rparr>))"

definition apiCache_delete :: "string \<Rightarrow> unit io" where
  "apiCache_delete account = (\<lambda>w. (Inr (), w\<lparr>apiCache := (apiCache w)(account := None)\<rparr>))"

text \<open>\<^verbatim>\<open>try { if (await api.ping()) ... } catch { }\<close>: whether the probe came back true; an
  exception of the probe is swallowed by the empty handler.\<close>

definition probe :: "platform \<Rightarrow> api \<Rightarrow> bool io" where
  "probe P a = io_catch (ping P a) (\<lambda>_. io_return False)"

text \<open>Block 1 of \<^verbatim>\<open>getAuthenticatedAPI\<close>: the cached instance, if its probe succeeds;
  otherwise the cache entry is deleted.\<close>

definition tier1_cached :: "platform \<Rightarrow> string \<Rightarrow> api option io" where
  "tier1_cached P account = (\<lambda>w.
     case apiCache w account of
       None \<Rightarrow> (Inr None, w)
     | Some a \<Rightarrow>
         io_bind (probe P a) (\<lambda>alive.
           if alive then io_return (Some a)
           else io_bind (apiCache_delete account) (\<lambda>_. io_return None)) w)"

text \<open>Block 2: the token stored in the login manager, if there is one and its probe
  succeeds.\<close>

definition tier2_stored_token :: "platform \<Rightarrow> string \<Rightarrow> string \<Rightarrow> api option io" where
  "tier2_stored_token P account srv =
     io_bind (getSecret P srv REALMS_TOKEN) (\<lambda>storedToken.
       case storedToken of
         None \<Rightarrow> io_return None
       | Some t \<Rightarrow>
           if t = [] then io_return None
           else io_bind (io_lift (new_SeafileAPI P srv)) (\<lambda>a0.
                  let a = a0\<lparr>token := Some t\<rparr> in
                  io_bind (probe P a) (\<lambda>alive.
                    if alive then io_bind (apiCache_set account a) (\<lambda>_. io_return (Some a))
                    else io_return None)))"

text \<open>Block 3: authenticate again with the stored password.\<close>

definition tier3_reauthenticate :: "platform \<Rightarrow> string \<Rightarrow> string \<Rightarrow> api io" where
  "tier3_reauthenticate P account srv =
     io_bind (getCredentials P srv REALMS_PASSWORD) (\<lambda>creds.
       case creds of
         None \<Rightarrow> io_throw (SeafileError NO_CREDENTIALS)
       | Some c \<Rightarrow>
           io_bind (io_lift (new_SeafileAPI P srv)) (\<lambda>a0.
           io_bind (authenticate P a0 (cred_username c) (cred_password c) None) (\<lambda>a.
           io_bind (saveSecret P srv REALMS_TOKEN (cred_username c) (token a)) (\<lambda>_.
           io_bind (apiCache_set account a) (\<lambda>_.
           io_return a)))))"

definition getAuthenticatedAPI :: "platform \<Rightarrow> string \<Rightarrow> api io" where
  "getAuthenticatedAPI P account =
     io_bind (loadAccountConfig account) (\<lambda>cfg0.
       case cfg0 of
         None \<Rightarrow> io_throw (SeafileError NO_CONFIG)
       | Some cfg \<Rightarrow>
           if cfg_serverUrl cfg = [] then io_throw (SeafileError NO_CONFIG)
           else io_bind (io_lift (validateServerUrl P (cfg_serverUrl cfg))) (\<lambda>srv.
                io_bind (tier1_cached P account) (\<lambda>cached.
                  case cached of
                    Some a \<Rightarrow> io_return a
                  | None \<Rightarrow>
                      io_bind (tier2_stored_token P account srv) (\<lambda>stored.
                        case stored of
                          Some a \<Rightarrow> io_return a
                        | None \<Rightarrow> tier3_reauthenticate P account srv))))"

section \<open>The cloudFile event handlers\<close>

text \<open>What the upload listener returns: the share link with the template information, or
  an error. The expiry date is kept as the number of days it lies ahead.\<close>

record template_info =
  service_url :: string
  download_expiry_date :: "int option"
  download_password_protected :: bool

datatype upload_result =
    UploadDone "json option" template_info
  | UploadError exn

definition uploadedFiles_set :: "nat \<Rightarrow> upload_record \<Rightarrow> unit io" where
  "uploadedFiles_set fid r = (\<lambda>w. (Inr (), w\<lparr>uploadedFiles := (uploadedFiles w)(fid \<mapsto> r)\<rparr>))"

text \<open>\<^verbatim>\<open>sanitizePath(config.uploadDir || "/Thunderbird-Attachments")\<close>\<close>

definition target_dir :: "config \<Rightarrow> string" where
  "target_dir cfg =
     sanitizePath (if uploadDir cfg = [] then ''/Thunderbird-Attachments'' else uploadDir cfg)"

text \<open>\<^verbatim>\<open>sanitizePath(`${uploadDir}/${name}`)\<close>\<close>

definition file_path :: "config \<Rightarrow> upload_file \<Rightarrow> string" where
  "file_path cfg f = sanitizePath (target_dir cfg @ ''/'' @ file_name f)"

text \<open>Whether a share password is set (the secret is truthy), whether an expiry is
  configured, and the options passed to \<^verbatim>\<open>createShareLink\<close>. The configured expiry is the
  integer that \<^verbatim>\<open>saveConfig\<close> stored; it is passed on as a number.\<close>

definition password_protected :: "string option \<Rightarrow> bool" where
  "password_protected sharePw = (case sharePw of None \<Rightarrow> False | Some s \<Rightarrow> s \<noteq> [])"

definition expires :: "config \<Rightarrow> bool" where
  "expires cfg = (shareLinkExpireDays cfg \<noteq> 0 \<and> 0 < shareLinkExpireDays cfg)"

definition share_options :: "config \<Rightarrow> string option \<Rightarrow> share_link_options" where
  "share_options cfg sharePw =
     \<lparr> opt_password = (if password_protected sharePw then sharePw else None),
       opt_expireDays = (if expires cfg then JsNumber (number_of_int (shareLinkExpireDays cfg))
                         else JsUndefined) \<rparr>"

text \<open>The listener of \<^verbatim>\<open>onFileUpload\<close> up to the upload ticket: session, configuration,
  directory, upload link.\<close>

definition upload_prepare :: "platform \<Rightarrow> string \<Rightarrow> (api \<times> config \<times> string) io" where
  "upload_prepare P account =
     io_bind (getAuthenticatedAPI P account) (\<lambda>a.
     io_bind (loadAccountConfig account) (\<lambda>cfg0.
       case cfg0 of
         None \<Rightarrow> io_throw TypeError
       | Some cfg \<Rightarrow>
           io_bind (ensureDirectory P a (repoId cfg) (target_dir cfg)) (\<lambda>_.
           io_bind (getUploadLink P a (repoId cfg) (target_dir cfg)) (\<lambda>uploadLink.
           io_return (a, cfg, uploadLink)))))"

text \<open>The listener from the upload of the file on: upload (no abort signal is passed),
  share link, entry in \<open>uploadedFiles\<close>, template information.\<close>

definition upload_transfer ::
  "platform \<Rightarrow> string \<Rightarrow> nat \<Rightarrow> upload_file \<Rightarrow> api \<times> config \<times> string \<Rightarrow> upload_result io" where
  "upload_transfer P account fid f ctx =
     (case ctx of (a, cfg, uploadLink) \<Rightarrow>
     io_bind (uploadFile P a uploadLink (target_dir cfg) f None) (\<lambda>_.
     io_bind (io_lift (validateServerUrl P (cfg_serverUrl cfg))) (\<lambda>srv.
     io_bind (getSecret P srv REALMS_SHARE_PW) (\<lambda>sharePw.
     io_bind (createShareLink P a (repoId cfg) (file_path cfg f) (share_options cfg sharePw))
       (\<lambda>shareLink.
     io_bind (io_lift (get_prop shareLink ''token'')) (\<lambda>tok.
     io_bind (uploadedFiles_set fid \<lparr> rec_repoId = repoId cfg, filePath = file_path cfg f,
                                     accountId = account, shareLinkToken = tok \<rparr>) (\<lambda>_.
     io_bind (io_lift (get_prop shareLink ''link'')) (\<lambda>link.
     io_return (UploadDone link
       \<lparr> service_url = cfg_serverUrl cfg,
         download_expiry_date = (if expires cfg then Some (shareLinkExpireDays cfg) else None),
         download_password_protected = password_protected sharePw \<rparr>)))))))))"

text \<open>The listener of \<^verbatim>\<open>onFileUpload\<close>: both parts inside one \<^verbatim>\<open>try\<close>, any exception
  becoming an error result.\<close>

definition onFileUpload :: "platform \<Rightarrow> string \<Rightarrow> nat \<Rightarrow> upload_file \<Rightarrow> upload_result io" where
  "onFileUpload P account fid f =
     io_catch (io_bind (upload_prepare P account) (upload_transfer P account fid f))
       (\<lambda>error. io_return (UploadError error))"

definition onFileUploadAbort :: "nat \<Rightarrow> unit io" where
  "onFileUploadAbort fid = (\<lambda>w. (Inr (), w\<lparr>uploadedFiles := (uploadedFiles w)(fid := None)\<rparr>))"

definition onFileDeleted :: "platform \<Rightarrow> string \<Rightarrow> nat \<Rightarrow> unit io" where
  "onFileDeleted P account fid = (\<lambda>w.
     case uploadedFiles w fid of
       None \<Rightarrow> (Inr (), w)
     | Some fileInfo \<Rightarrow>
         io_bind
           (io_catch
              (io_bind (getAuthenticatedAPI P account) (\<lambda>a.
               io_bind (deleteFile P a (rec_repoId fileInfo) (filePath fileInfo)) (\<lambda>_.
               io_return ())))
              (\<lambda>_. io_return ()))
           (\<lambda>_. onFileUploadAbort fid) w)"

text \<open>An abort event that arrives while the listener of \<^verbatim>\<open>onFileUpload\<close> waits for the
  upload: the listener has run up to the upload ticket, the abort listener runs, then the
  listener goes on.\<close>

definition upload_aborted_after_ticket :: "platform \<Rightarrow> string \<Rightarrow> nat \<Rightarrow> upload_file \<Rightarrow> upload_result io" where
  "upload_aborted_after_ticket P account fid f =
     io_catch
       (io_bind (upload_prepare P account) (\<lambda>ctx.
        io_bind (onFileUploadAbort fid) (\<lambda>_.
        upload_transfer P account fid f ctx)))
       (\<lambda>error. io_return (UploadError error))"

section \<open>Notions used in the statements\<close>

text \<open>
  What the URL Standard says about the parser behind \<^verbatim>\<open>new URL\<close> and is used here: the
  origin of an \<^verbatim>\<open>http:\<close> or \<^verbatim>\<open>https:\<close> URL is a string \<^verbatim>\<open>scheme://host[:port]\<close>, which is
  not empty, has no white space at either end and no trailing slash; and parsing that
  string gives a URL with the same protocol and the same origin.
\<close>

definition URL_contract :: "(string \<Rightarrow> url option) \<Rightarrow> bool" where
  "URL_contract parse =
     (\<forall>s u. parse s = Some u \<and> (protocol u = ''https:'' \<or> protocol u = ''http:'') \<longrightarrow>
        origin u \<noteq> []
        \<and> \<not> is_js_space (hd (origin u))
        \<and> \<not> is_js_space (last (origin u))
        \<and> last (origin u) \<noteq> CHR ''/''
        \<and> (\<exists>u'. parse (origin u) = Some u' \<and> protocol u' = protocol u \<and> origin u' = origin u))"

text \<open>A network that answers a probe with status 401 wherever the given network rejects
  it, and is the given network otherwise.\<close>

definition ping_failures_as_401 ::
  "(request list \<Rightarrow> request \<Rightarrow> fetch_result) \<Rightarrow> request list \<Rightarrow> request \<Rightarrow> fetch_result" where
  "ping_failures_as_401 net history req =
     (case req of
        PingReq srv tok \<Rightarrow>
          (case net history req of
             Rejected \<Rightarrow> Response \<lparr> status = 401, body = None \<rparr>
           | Response r \<Rightarrow> Response r)
      | _ \<Rightarrow> net history req)"



text \<open>The upload requests among the requests sent so far.\<close>

definition is_upload :: "request \<Rightarrow> bool" where
  "is_upload req = (case req of UploadReq _ _ _ _ _ \<Rightarrow> True | _ \<Rightarrow> False)"

definition upload_requests :: "world \<Rightarrow> request list" where
  "upload_requests w = filter is_upload (sent w)"

text \<open>A computation that leaves the \<open>uploadedFiles\<close> table as it is and sends no upload
  request, whatever it returns.\<close>

definition keeps_uploads :: "'a io \<Rightarrow> bool" where
  "keeps_uploads m =
     (\<forall>w. uploadedFiles (snd (m w)) = uploadedFiles w
          \<and> upload_requests (snd (m w)) = upload_requests w)"

section \<open>An example platform and account\<close>

text \<open>A small platform on which the functions can be run: a server at
  \<^verbatim>\<open>https://cloud.example.com\<close> that knows one password and one token, and a foreign host.\<close>

definition example_URL :: "string \<Rightarrow> url option" where
  "example_URL s =
     (if s = ''https://cloud.example.com''
         \<or> s = ''https://cloud.example.com/seafhttp/upload-api/abc''
      then Some \<lparr> protocol = ''https:'', hostname = ''cloud.example.com'',
                  origin = ''https://cloud.example.com'' \<rparr>
      else if s = ''https://files.example.net'' \<or> s = ''https://files.example.net/upload/abc''
      then Some \<lparr> protocol = ''https:'', hostname = ''files.example.net'',
                  origin = ''https://files.example.net'' \<rparr>
      else None)"

definition example_newURI :: "string \<Rightarrow> nsIURI option" where
  "example_newURI s =
     (if s = ''https://cloud.example.com''
      then Some \<lparr> scheme = ''https'', prePath = ''https://cloud.example.com'' \<rparr>
      else None)"

definition example_network :: "request list \<Rightarrow> request \<Rightarrow> fetch_result" where
  "example_network history req =
     (case req of
        AuthTokenReq srv u pw otp \<Rightarrow>
          if pw = ''hunter2''
          then Response \<lparr> status = 200, body = Some (JObj [(''token'', JStr ''tok123'')]) \<rparr>
          else Response \<lparr> status = 400, body = Some (JObj [(''non_field_errors'',
                  JArr [JStr ''Unable to login with provided credentials.''])]) \<rparr>
      | PingReq srv tok \<Rightarrow>
          if tok = Some ''tok123'' then Response \<lparr> status = 200, body = Some (JStr ''pong'') \<rparr>
          else Response \<lparr> status = 401, body = None \<rparr>
      | MkdirReq srv tok repo p \<Rightarrow> Response \<lparr> status = 201, body = Some (JStr ''success'') \<rparr>
      | UploadLinkReq srv tok repo p \<Rightarrow>
          if repo = ''lib1''
          then Response \<lparr> status = 200,
                 body = Some (JStr ''https://cloud.example.com/seafhttp/upload-api/abc'') \<rparr>
          else Response \<lparr> status = 200,
                 body = Some (JStr ''https://files.example.net/upload/abc'') \<rparr>
      | UploadReq link tok p f sig \<Rightarrow>
          Response \<lparr> status = 200, body = Some (JArr [JObj [(''name'', JStr (file_name f))]]) \<rparr>
      | ShareLinkReq srv tok b \<Rightarrow>
          Response \<lparr> status = 200, body = Some (JObj [(''token'', JStr ''sl1''),
                  (''link'', JStr ''https://cloud.example.com/f/sl1/'')]) \<rparr>
      | DeleteFileReq srv tok repo p \<Rightarrow> Response \<lparr> status = 200, body = Some (JObj []) \<rparr>)"

definition example_platform :: platform where
  "example_platform = \<lparr> URL = example_URL, newURI = example_newURI, network = example_network \<rparr>"

text \<open>The same platform with the network down: every \<^verbatim>\<open>fetch\<close> is rejected.\<close>

definition offline_platform :: platform where
  "offline_platform = \<lparr> URL = example_URL, newURI = example_newURI, network = (\<lambda>history req. Rejected) \<rparr>"

definition example_config :: config where
  "example_config =
     \<lparr> cfg_serverUrl = ''https://cloud.example.com'', cfg_username = ''alice'',
       repoId = ''lib1'', repoName = ''Library'', uploadDir = ''/Thunderbird-Attachments'',
       shareLinkExpireDays = 7, hasShareLinkPassword = False \<rparr>"

definition example_password_login :: login where
  "example_password_login =
     \<lparr> login_origin = ''https://cloud.example.com'', httpRealm = ''Seafile FileLink'',
       login_username = ''alice'', login_password = ''hunter2'' \<rparr>"

text \<open>An account with a stored password, no cached session and no stored token.\<close>

definition example_world :: world where
  "example_world =
     \<lparr> storage = [''acc1'' \<mapsto> example_config], apiCache = Map.empty,
       uploadedFiles = Map.empty, logins = [example_password_login],
       lm_calls = [], sent = [] \<rparr>"

definition example_file :: upload_file where
  "example_file = \<lparr> file_name = ''report.pdf'', file_data = ''0123456789'' \<rparr>"

text \<open>The same account with a session in the cache.\<close>

definition example_session :: api where
  "example_session = \<lparr> serverUrl = ''https://cloud.example.com'', token = Some ''tok123'' \<rparr>"

definition cached_world :: world where
  "cached_world = example_world\<lparr>apiCache := [''acc1'' \<mapsto> example_session]\<rparr>"

text \<open>An account whose library is served from a foreign host.\<close>

definition foreign_world :: world where
  "foreign_world =
     cached_world\<lparr>storage := [''acc1'' \<mapsto> example_config\<lparr>repoId := ''lib2''\<rparr>]\<rparr>"

section \<open>Properties of the path sanitizer\<close>

lemma remove_dotdot_keeps_head:
  "b \<noteq> CHR ''.'' \<Longrightarrow> remove_dotdot (b # s) = b # remove_dotdot s"
  by (cases s) simp_all

lemma has_adjacent_Cons:
  "has_adjacent c (a # ys) = ((a = c \<and> (case ys of [] \<Rightarrow> False | y # _ \<Rightarrow> y = c)) \<or> has_adjacent c ys)"
  by (cases ys) auto

lemma remove_dotdot_no_adjacent: "\<not> has_adjacent CHR ''.'' (remove_dotdot s)"
proof (induction s rule: remove_dotdot.induct)
  case (1 a b s)
  show ?case
  proof (cases "a = CHR ''.'' \<and> b = CHR ''.''")
    case True
    with "1.IH"(1) show ?thesis by simp
  next
    case False
    then have eq: "remove_dotdot (a # b # s) = a # remove_dotdot (b # s)"
      by auto
    have ih: "\<not> has_adjacent CHR ''.'' (remove_dotdot (b # s))"
      using "1.IH"(2) False by blast
    show ?thesis
    proof (cases "a = CHR ''.''")
      case True
      with False have "b \<noteq> CHR ''.''" by simp
      then have "remove_dotdot (b # s) = b # remove_dotdot s"
        by (rule remove_dotdot_keeps_head)
      with ih eq \<open>b \<noteq> CHR ''.''\<close> show ?thesis
        by (simp add: has_adjacent_Cons)
    next
      case False
      with ih eq show ?thesis
        by (simp add: has_adjacent_Cons)
    qed
  qed
qed simp_all

lemma collapse_slashes_no_adjacent: "\<not> has_adjacent CHR ''/'' (collapse_slashes s)"
proof (induction s rule: collapse_slashes.induct)
  case (1 a b s)
  show ?case
  proof (cases "a = CHR ''/'' \<and> b = CHR ''/''")
    case True
    with "1.IH"(1) show ?thesis by simp
  next
    case False
    then have eq: "collapse_slashes (a # b # s) = a # collapse_slashes (b # s)"
      by auto
    have ih: "\<not> has_adjacent CHR ''/'' (collapse_slashes (b # s))"
      using "1.IH"(2) False by blast
    have hd: "\<exists>t. collapse_slashes (b # s) = b # t"
      by (induction s arbitrary: b) auto
    then obtain t where t: "collapse_slashes (b # s) = b # t" ..
    with ih eq False show ?thesis
      by (auto simp: has_adjacent_Cons)
  qed
qed simp_all

text \<open>Collapsing slashes never brings two dots together: it only deletes slashes.\<close>

lemma collapse_slashes_keeps_dots:
  "\<not> has_adjacent CHR ''.'' s \<Longrightarrow> \<not> has_adjacent CHR ''.'' (collapse_slashes s)"
proof (induction s rule: collapse_slashes.induct)
  case (1 a b s)
  have hd: "\<exists>t. collapse_slashes (b # s) = b # t"
    by (induction s arbitrary: b) auto
  then obtain t where t: "collapse_slashes (b # s) = b # t" ..
  from "1.prems" have nb: "\<not> has_adjacent CHR ''.'' (b # s)" and nab: "\<not> (a = CHR ''.'' \<and> b = CHR ''.'')"
    by (auto split: if_splits)
  show ?case
  proof (cases "a = CHR ''/'' \<and> b = CHR ''/''")
    case True
    with "1.IH"(1) nb show ?thesis by simp
  next
    case False
    then have eq: "collapse_slashes (a # b # s) = a # collapse_slashes (b # s)"
      by auto
    have "\<not> has_adjacent CHR ''.'' (collapse_slashes (b # s))"
      using "1.IH"(2) False nb by blast
    with eq t nab show ?thesis
      by (auto simp: has_adjacent_Cons)
  qed
qed simp_all

lemma segments_nonempty: "segments s \<noteq> []"
  by (induction s) (auto split: list.splits)

lemma segments_no_dotdot:
  "\<not> has_adjacent CHR ''.'' s \<Longrightarrow> x \<in> set (segments s) \<Longrightarrow> \<not> has_adjacent CHR ''.'' x"
proof (induction s arbitrary: x)
  case Nil
  then show ?case by simp
next
  case (Cons c s)
  from Cons.prems(1) have ns: "\<not> has_adjacent CHR ''.'' s"
    by (simp add: has_adjacent_Cons)
  show ?case
  proof (cases "c = CHR ''/''")
    case True
    with Cons.prems(2) have "x = [] \<or> x \<in> set (segments s)" by simp
    with Cons.IH [OF ns] show ?thesis by auto
  next
    case False
    obtain y ys where seg: "segments s = y # ys"
      using segments_nonempty [of s] by (cases "segments s") auto
    with False Cons.prems(2) have "x = c # y \<or> x \<in> set ys" by simp
    then show ?thesis
    proof
      assume "x \<in> set ys"
      with seg Cons.IH [OF ns] show ?thesis by simp
    next
      assume x: "x = c # y"
      have ny: "\<not> has_adjacent CHR ''.'' y"
        using Cons.IH [OF ns, of y] seg by simp
      have "case y of [] \<Rightarrow> True | d # _ \<Rightarrow> (case s of [] \<Rightarrow> False | e # _ \<Rightarrow> e = d)"
        using seg by (cases s) (auto split: list.splits if_splits)
      with Cons.prems(1) ny x show ?thesis
        by (cases y; cases s) (auto simp: has_adjacent_Cons)
    qed
  qed
qed

lemma sanitizePath_no_dots: "\<not> has_adjacent CHR ''.'' (sanitizePath p)"
proof -
  have "\<not> has_adjacent CHR ''.'' (collapse_slashes (remove_dotdot p))"
    by (rule collapse_slashes_keeps_dots) (rule remove_dotdot_no_adjacent)
  then show ?thesis
    by (simp add: sanitizePath_def Let_def has_adjacent_Cons)
qed

lemma sanitizePath_no_slashes: "\<not> has_adjacent CHR ''/'' (sanitizePath p)"
proof -
  have "\<not> has_adjacent CHR ''/'' (collapse_slashes (remove_dotdot p))"
    by (rule collapse_slashes_no_adjacent)
  then show ?thesis
    by (auto simp: sanitizePath_def Let_def has_adjacent_Cons startsWith_slash_def split: list.splits)
qed

lemma sanitizePath_leading: "\<exists>rest. sanitizePath p = CHR ''/'' # rest"
  by (auto simp: sanitizePath_def Let_def startsWith_slash_def split: list.splits)

text \<open>
  C2. For every input string (in particular one with \<^verbatim>\<open>..\<close> segments or repeated
  separators) the output of \<^verbatim>\<open>sanitizePath\<close> has no \<^verbatim>\<open>..\<close> segment (it has no two
  adjacent dots at all), has no repeated separator, and begins with exactly one
  separator: its first character is a slash and its first two characters are not two
  slashes.
\<close>

theorem sanitizePath_clean:
  "''..'' \<notin> set (segments (sanitizePath p))
   \<and> has_adjacent CHR ''.'' (sanitizePath p) = False
   \<and> has_adjacent CHR ''/'' (sanitizePath p) = False
   \<and> take 1 (sanitizePath p) = ''/''
   \<and> take 2 (sanitizePath p) \<noteq> ''//''"
proof -
  have a: "''..'' \<notin> set (segments (sanitizePath p))"
    using segments_no_dotdot [OF sanitizePath_no_dots, of "''..''" p] by auto
  obtain rest where r: "sanitizePath p = CHR ''/'' # rest"
    using sanitizePath_leading by blast
  have b: "take 1 (sanitizePath p) = ''/''"
    using r by simp
  have c: "take 2 (sanitizePath p) \<noteq> ''//''"
  proof
    assume "take 2 (sanitizePath p) = ''//''"
    with r have "\<exists>t. sanitizePath p = CHR ''/'' # CHR ''/'' # t"
      by (cases rest) auto
    then have "has_adjacent CHR ''/'' (sanitizePath p)" by auto
    with sanitizePath_no_slashes show False by blast
  qed
  from a b c sanitizePath_no_dots sanitizePath_no_slashes show ?thesis by simp
qed

section \<open>Properties of the share-link body\<close>

lemma digit_val_digit_char: "d < 10 \<Longrightarrow> digit_val (digit_char d) = d"
  by (simp add: digit_val_def digit_char_def)

lemma is_digit_digit_char: "d < 10 \<Longrightarrow> is_digit (digit_char d)"
  by (simp add: is_digit_def digit_char_def)

lemma digits_of_all_digits: "\<forall>c \<in> set (digits_of n). is_digit c"
proof (induction n rule: digits_of.induct)
  case (1 n)
  show ?case
  proof (cases "n < 10")
    case True
    then show ?thesis by (subst digits_of.simps) (simp add: is_digit_digit_char)
  next
    case False
    with 1 show ?thesis by (subst digits_of.simps) (simp add: is_digit_digit_char)
  qed
qed

lemma digits_of_value: "digits_value (digits_of n) = n"
  unfolding digits_value_def
proof (induction n rule: digits_of.induct)
  case (1 n)
  show ?case
  proof (cases "n < 10")
    case True
    then show ?thesis by (subst digits_of.simps) (simp add: digit_val_digit_char)
  next
    case False
    with 1 show ?thesis by (subst digits_of.simps) (simp add: digit_val_digit_char)
  qed
qed

lemma digits_of_nonempty: "digits_of n \<noteq> []"
  by (subst digits_of.simps) simp

lemma is_digit_not_space: "is_digit c \<Longrightarrow> \<not> is_js_space c"
  by (auto simp: is_digit_def is_js_space_def)

lemma is_digit_not_sign: "is_digit c \<Longrightarrow> c \<noteq> CHR ''-'' \<and> c \<noteq> CHR ''+''"
  by (auto simp: is_digit_def)

text \<open>\<^verbatim>\<open>parseInt\<close> reads a leading run of digits and stops at the first other character.\<close>

lemma parseInt10_prefix:
  assumes ne: "ds \<noteq> []" and dig: "\<forall>c \<in> set ds. is_digit c"
    and stop: "r = [] \<or> \<not> is_digit (hd r)"
  shows "parseInt10 (ds @ r) = Some (int (digits_value ds))"
proof -
  obtain c cs where cr: "ds = c # cs"
    using ne by (cases ds) auto
  have dc: "is_digit c" using dig cr by simp
  have tr: "takeWhile is_digit r = []"
    using stop by (simp add: takeWhile_eq_Nil_iff)
  have tw: "takeWhile is_digit (ds @ r) = ds"
    using dig tr by (simp add: takeWhile_append)
  have dw: "dropWhile is_js_space (ds @ r) = ds @ r"
    using cr is_digit_not_space [OF dc] by simp
  have neg: "(case ds @ r of [] \<Rightarrow> False | c # _ \<Rightarrow> c = CHR ''-'') = False"
    using cr is_digit_not_sign [OF dc] by simp
  have u: "(case ds @ r of [] \<Rightarrow> [] | c # x \<Rightarrow> if c = CHR ''-'' \<or> c = CHR ''+'' then x else ds @ r) = ds @ r"
    using cr is_digit_not_sign [OF dc] by simp
  show ?thesis
    unfolding parseInt10_def Let_def dw neg u tw using ne by (simp add: digits_value_def)
qed

lemma parseInt10_plain:
  assumes ne: "ds \<noteq> []" and dig: "\<forall>c \<in> set ds. is_digit c"
  shows "parseInt10 ds = Some (int (digits_value ds))"
  using parseInt10_prefix [OF ne dig, of "[]"] by simp

lemma parseInt10_minus:
  assumes ne: "ds \<noteq> []" and dig: "\<forall>c \<in> set ds. is_digit c"
  shows "parseInt10 (CHR ''-'' # ds) = Some (- int (digits_value ds))"
proof -
  have tw: "takeWhile is_digit ds = ds"
    using dig by (simp add: takeWhile_eq_all_conv)
  have dw: "dropWhile is_js_space (CHR ''-'' # ds) = CHR ''-'' # ds"
    by (simp add: is_js_space_def)
  show ?thesis
    unfolding parseInt10_def Let_def dw using ne by (simp add: tw digits_value_def)
qed

lemma digits_value_append:
  "digits_value (xs @ ys) = digits_value xs * 10 ^ length ys + digits_value ys"
  unfolding digits_value_def
proof (induction ys rule: rev_induct)
  case Nil
  show ?case by simp
next
  case (snoc y ys)
  then show ?case by (simp add: algebra_simps)
qed

lemma digits_value_bound:
  "\<forall>c \<in> set ds. is_digit c \<Longrightarrow> digits_value ds < 10 ^ length ds"
  unfolding digits_value_def
proof (induction ds rule: rev_induct)
  case Nil
  show ?case by simp
next
  case (snoc y ys)
  then have "digit_val y \<le> 9"
    by (auto simp: is_digit_def digit_val_def)
  moreover have "foldl (\<lambda>acc c. 10 * acc + digit_val c) 0 ys < 10 ^ length ys"
    using snoc by simp
  ultimately show ?case by simp
qed

lemma digits_value_zeros: "digits_value (replicate j CHR ''0'') = 0"
  unfolding digits_value_def
  by (induction j) (simp_all add: digit_val_def)

lemma digits_value_take:
  assumes "\<forall>c \<in> set ds. is_digit c"
  shows "digits_value (take j ds) = digits_value ds div 10 ^ (length ds - j)"
proof -
  have dd: "\<forall>c \<in> set (drop j ds). is_digit c"
    using assms by (auto dest: in_set_dropD)
  have "digits_value ds = digits_value (take j ds) * 10 ^ length (drop j ds) + digits_value (drop j ds)"
    using digits_value_append [of "take j ds" "drop j ds"] by simp
  moreover have "digits_value (drop j ds) < 10 ^ length (drop j ds)"
    by (rule digits_value_bound [OF dd])
  ultimately show ?thesis by simp
qed

lemma digits_of_upper: "n < 10 ^ length (digits_of n)"
  using digits_value_bound [OF digits_of_all_digits, of n] by (simp add: digits_of_value)

lemma digits_of_lower: "0 < n \<Longrightarrow> 10 ^ (length (digits_of n) - 1) \<le> n"
proof (induction n rule: digits_of.induct)
  case (1 n)
  show ?case
  proof (cases "n < 10")
    case True
    with 1(2) show ?thesis by (subst digits_of.simps) simp
  next
    case False
    then have "10 ^ (length (digits_of (n div 10)) - 1) \<le> n div 10"
      using 1(1) by simp
    moreover have "length (digits_of (n div 10)) \<noteq> 0"
      using digits_of_nonempty by simp
    ultimately have "10 ^ length (digits_of (n div 10)) \<le> 10 * (n div 10)"
      by (cases "length (digits_of (n div 10))") simp_all
    then have "10 ^ length (digits_of (n div 10)) \<le> n"
      by simp
    with False show ?thesis by (subst digits_of.simps) simp
  qed
qed


text \<open>Stripping trailing zeros keeps the value.\<close>

lemma normalise_value:
  "0 < s \<Longrightarrow> normalise s e = (m, e') \<Longrightarrow> 0 < m \<and> real m * 10 powi e' = real s * 10 powi e"
proof (induction s e rule: normalise.induct)
  case (1 s e)
  show ?case
  proof (cases "s mod 10 = 0")
    case False
    with 1(2,3) show ?thesis by (subst (asm) normalise.simps) simp
  next
    case True
    then have s10: "s = 10 * (s div 10)" by presburger
    have pos: "0 < s div 10" using 1(2) s10 by presburger
    have n: "normalise (s div 10) (e + 1) = (m, e')"
      using 1(2,3) True by (subst (asm) normalise.simps) simp
    have "0 < m \<and> real m * 10 powi e' = real (s div 10) * 10 powi (e + 1)"
      using 1(1) [OF _ True pos n] 1(2) by simp
    moreover have "real (s div 10) * 10 powi (e + 1) = real s * 10 powi e"
      by (subst (2) s10) (simp add: power_int_add_1)
    ultimately show ?thesis by simp
  qed
qed

lemma power_int_nonneg_eq: "0 \<le> e \<Longrightarrow> (10::real) powi e = 10 ^ nat e"
  by (simp add: power_int_def)

lemma power_int_neg_eq: "e < 0 \<Longrightarrow> (10::real) powi e = 1 / 10 ^ nat (- e)"
  by (simp add: power_int_def field_simps)

lemma not_digit_point: "\<not> is_digit CHR ''.''"
  by (simp add: is_digit_def)


lemma is_digit_zero: "is_digit CHR ''0''"
  by (simp add: is_digit_def)

text \<open>The position \<open>n\<close> of the decimal point brackets the value between two powers of ten.\<close>

lemma value_bracket:
  assumes m: "0 < m"
  shows "10 powi (int (length (digits_of m)) + e - 1) \<le> real m * 10 powi e"
    and "real m * 10 powi e < 10 powi (int (length (digits_of m)) + e)"
proof -
  let ?k = "length (digits_of m)"
  have kpos: "0 < ?k" using digits_of_nonempty by simp
  have eq: "int ?k + e - 1 = int (?k - 1) + e"
    using kpos by (cases "?k") simp_all
  have "real (10 ^ (?k - 1)) \<le> real m"
    using digits_of_lower [OF m] by (simp only: of_nat_le_iff)
  then have lower: "(10::real) ^ (?k - 1) \<le> real m" by simp
  have "real m < real (10 ^ ?k)"
    using digits_of_upper [of m] by (simp only: of_nat_less_iff)
  then have upper: "real m < (10::real) ^ ?k" by simp
  have "(10::real) powi (int ?k + e - 1) = 10 powi (int (?k - 1)) * 10 powi e"
    unfolding eq by (rule power_int_add) simp
  also have "\<dots> = 10 ^ (?k - 1) * 10 powi e"
    by (simp only: power_int_of_nat)
  also have "\<dots> \<le> real m * 10 powi e"
    using lower by (intro mult_right_mono) simp_all
  finally show "10 powi (int ?k + e - 1) \<le> real m * 10 powi e" .
  have "real m * 10 powi e < 10 ^ ?k * 10 powi e"
    using upper by (intro mult_strict_right_mono) simp_all
  also have "\<dots> = 10 powi (int ?k) * 10 powi e"
    by (simp only: power_int_of_nat)
  also have "\<dots> = 10 powi (int ?k + e)"
    by (rule power_int_add [symmetric]) simp
  finally show "real m * 10 powi e < 10 powi (int ?k + e)" .
qed

lemma number_to_string_positive:
  assumes s: "0 < s" and n: "normalise s e = (m, e')"
  shows "number_to_string (Finite False s e)
           = decimal_notation (digits_of m) (int (length (digits_of m)) + e')"
  using s n by (simp add: number_to_string_def Let_def)

text \<open>Between 1 and \<open>10^21\<close> the string is a plain decimal, and \<^verbatim>\<open>parseInt\<close> reads its integer
  part.\<close>

lemma parseInt10_decimal:
  assumes s: "0 < s" and lo: "1 \<le> real s * 10 powi e" and hi: "real s * 10 powi e < 10 ^ 21"
  shows "parseInt10 (number_to_string (Finite False s e)) = Some \<lfloor>real s * 10 powi e\<rfloor>"
proof -
  obtain m e' where n: "normalise s e = (m, e')" by (cases "normalise s e")
  have m: "0 < m" and v: "real m * 10 powi e' = real s * 10 powi e"
    using normalise_value [OF s n] by simp_all
  define ds where "ds = digits_of m"
  define k where "k = length ds"
  have dig: "\<forall>c \<in> set ds. is_digit c" unfolding ds_def by (rule digits_of_all_digits)
  have kpos: "0 < k" unfolding k_def ds_def using digits_of_nonempty by simp
  have val: "digits_value ds = m" unfolding ds_def by (rule digits_of_value)
  have br1: "10 powi (int k + e' - 1) \<le> real m * 10 powi e'"
    and br2: "real m * 10 powi e' < 10 powi (int k + e')"
    unfolding k_def ds_def using value_bracket [OF m] by simp_all
  have n1: "1 \<le> int k + e'"
  proof (rule ccontr)
    assume "\<not> 1 \<le> int k + e'"
    then have "int k + e' \<le> 0" by simp
    then have "(10::real) powi (int k + e') \<le> 10 powi 0"
      by (intro power_int_increasing) simp_all
    with br2 lo v show False by simp
  qed
  have n21: "int k + e' \<le> 21"
  proof (rule ccontr)
    assume "\<not> int k + e' \<le> 21"
    then have "21 \<le> int k + e' - 1" by simp
    then have "(10::real) powi 21 \<le> 10 powi (int k + e' - 1)"
      by (intro power_int_increasing) simp_all
    with br1 hi v show False by simp
  qed
  have str: "number_to_string (Finite False s e) = decimal_notation ds (int k + e')"
    unfolding k_def ds_def by (rule number_to_string_positive [OF s n])
  show ?thesis
  proof (cases "0 \<le> e'")
    case True
    have "decimal_notation ds (int k + e') = ds @ replicate (nat e') CHR ''0''"
      using True n21 by (simp add: decimal_notation_def Let_def k_def)
    moreover have "parseInt10 ((ds @ replicate (nat e') CHR ''0'') @ [])
                     = Some (int (digits_value (ds @ replicate (nat e') CHR ''0'')))"
      using dig kpos by (intro parseInt10_prefix) (auto simp: k_def is_digit_zero)
    moreover have "digits_value (ds @ replicate (nat e') CHR ''0'') = m * 10 ^ nat e'"
      by (simp add: digits_value_append digits_value_zeros val)
    moreover have "\<lfloor>real s * 10 powi e\<rfloor> = int (m * 10 ^ nat e')"
    proof -
      have "real s * 10 powi e = real (m * 10 ^ nat e')"
        using v True by (simp add: power_int_nonneg_eq)
      then show ?thesis by (simp only: floor_of_nat)
    qed
    ultimately show ?thesis using str by simp
  next
    case False
    then have neg: "e' < 0" by simp
    define j where "j = nat (int k + e')"
    have j: "0 < j" "j < k" "k - j = nat (- e')"
      using n1 neg by (simp_all add: j_def)
    have "decimal_notation ds (int k + e') = take j ds @ CHR ''.'' # drop j ds"
      using neg n1 n21 by (simp add: decimal_notation_def Let_def k_def j_def)
    moreover have "parseInt10 (take j ds @ CHR ''.'' # drop j ds) = Some (int (digits_value (take j ds)))"
      using dig j kpos by (intro parseInt10_prefix) (auto simp: k_def not_digit_point dest: in_set_takeD)
    moreover have "digits_value (take j ds) = m div 10 ^ nat (- e')"
      using digits_value_take [OF dig, of j] j by (simp add: val k_def)
    moreover have "\<lfloor>real s * 10 powi e\<rfloor> = int (m div 10 ^ nat (- e'))"
    proof -
      have "real s * 10 powi e = real m / real (10 ^ nat (- e'))"
        using v neg by (simp add: power_int_neg_eq)
      then show ?thesis by (simp only: floor_divide_of_nat_eq)
    qed
    ultimately show ?thesis using str by simp
  qed
qed



lemma value_positive: "1 \<le> real s * 10 powi e \<Longrightarrow> 0 < s"
  by (cases "s = 0") simp_all

lemma validatePositiveInt_decimal:
  assumes lo: "1 \<le> real s * 10 powi e" and hi: "real s * 10 powi e < 10 ^ 21"
  shows "validatePositiveInt (JsNumber (Finite False s e)) mx fb = min \<lfloor>real s * 10 powi e\<rfloor> mx"
proof -
  have "\<not> real s * 10 powi e < 0" using lo by simp
  then show ?thesis
    using parseInt10_decimal [OF value_positive [OF lo] lo hi]
    by (simp add: validatePositiveInt_def js_ToString_def)
qed



lemma validatePositiveInt_of_int:
  assumes "0 < n" and "n < 10 ^ 21"
  shows "validatePositiveInt (JsNumber (number_of_int n)) mx fb = min n mx"
proof -
  have v: "real (nat \<bar>n\<bar>) * 10 powi 0 = of_int n" using assms by simp
  have "validatePositiveInt (JsNumber (Finite False (nat \<bar>n\<bar>) 0)) mx fb
          = min \<lfloor>real (nat \<bar>n\<bar>) * 10 powi 0\<rfloor> mx"
    using assms by (intro validatePositiveInt_decimal) (simp_all only: v, simp_all)
  then show ?thesis using assms by (simp add: number_of_int_def)
qed

lemma guard_number:
  "(truthy (JsNumber x) \<and> greater_than_zero (JsNumber x)) = number_positive x"
  by (cases x) (auto simp: truthy_def greater_than_zero_def number_positive_def)








section \<open>Realms are validated before the login manager is touched\<close>

lemma validateRealm_rejects:
  "realm \<notin> set ALLOWED_REALMS \<Longrightarrow>
     validateRealm realm = Inl (if realm = [] then RealmEmpty else RealmNotAllowed)"
  by (simp add: validateRealm_def)

lemma validateRealm_accepts:
  "realm \<in> set ALLOWED_REALMS \<Longrightarrow> validateRealm realm = Inr realm"
  by (auto simp: validateRealm_def ALLOWED_REALMS_def)

text \<open>
  C7. For every realm string outside the three allowed ones, \<^verbatim>\<open>saveCredentials\<close>,
  \<^verbatim>\<open>getCredentials\<close> and \<^verbatim>\<open>removeCredentials\<close> each throw a validation error and leave
  the world as it was: the login manager is not called (no entry is added to \<open>lm_calls\<close>)
  and no login changes. The error is the one of the host name when that is invalid too,
  and otherwise the one of the realm.
\<close>

theorem unknown_realm_rejected_before_vault:
  assumes "realm \<notin> set ALLOWED_REALMS"
  shows "(\<exists>e. saveCredentials P h realm username pw w = (Inl (LoginManagerError e), w))
       \<and> (\<exists>e. getCredentials P h realm w = (Inl (LoginManagerError e), w))
       \<and> (\<exists>e. removeCredentials P h realm w = (Inl (LoginManagerError e), w))
       \<and> (\<forall>orig. validateHostname P h = Inr orig \<longrightarrow>
            saveCredentials P h realm username pw w
              = (Inl (LoginManagerError (if realm = [] then RealmEmpty else RealmNotAllowed)), w)
          \<and> getCredentials P h realm w
              = (Inl (LoginManagerError (if realm = [] then RealmEmpty else RealmNotAllowed)), w)
          \<and> removeCredentials P h realm w
              = (Inl (LoginManagerError (if realm = [] then RealmEmpty else RealmNotAllowed)), w))"
  using validateRealm_rejects [OF assms]
  by (cases "validateHostname P h")
     (simp_all add: saveCredentials_def getCredentials_def removeCredentials_def io_throw_def)

theorem unknown_realm_rejected_before_vault_witness:
  "''Seafile Other'' \<notin> set ALLOWED_REALMS
   \<and> saveCredentials example_platform ''https://cloud.example.com'' ''Seafile Other'' ''alice''
        (Some ''s3cret'') example_world
       = (Inl (LoginManagerError RealmNotAllowed), example_world)
   \<and> getCredentials example_platform ''https://cloud.example.com'' ''Seafile Other'' example_world
       = (Inl (LoginManagerError RealmNotAllowed), example_world)
   \<and> removeCredentials example_platform ''https://cloud.example.com'' ''Seafile Other'' example_world
       = (Inl (LoginManagerError RealmNotAllowed), example_world)"
proof -
  have r: "''Seafile Other'' \<notin> set ALLOWED_REALMS"
    by (simp add: ALLOWED_REALMS_def)
  have v: "validateHostname example_platform ''https://cloud.example.com''
            = Inr ''https://cloud.example.com''"
    by (simp add: validateHostname_def example_platform_def example_newURI_def trim_def
          strip_trailing_slashes_def is_js_space_def)
  from unknown_realm_rejected_before_vault
         [OF r, of example_platform "''https://cloud.example.com''" "''alice''"
            "Some ''s3cret''" example_world] v r
  show ?thesis by simp
qed

section \<open>Saving a credential overwrites\<close>

lemma remove_logins_of_world:
  "remove_logins_of username ls w =
     (Inr (), w\<lparr>logins := foldl (\<lambda>acc l. remove1 l acc) (logins w)
                              (filter (\<lambda>l. login_username l = username) ls),
                lm_calls := lm_calls w @ map RemoveLogin (filter (\<lambda>l. login_username l = username) ls)\<rparr>)"
proof (induction ls arbitrary: w)
  case Nil
  then show ?case by (simp add: io_return_def)
next
  case (Cons l ls)
  show ?case
    by (simp add: io_bind_def io_return_def lm_removeLogin_def Cons.IH)
qed

lemma foldl_remove1_filter:
  "\<forall>y \<in> set ys. \<not> p y \<Longrightarrow>
     foldl (\<lambda>acc l. remove1 l acc) (ys @ xs) (filter p xs) = ys @ filter (\<lambda>x. \<not> p x) xs"
proof (induction xs arbitrary: ys)
  case Nil
  then show ?case by simp
next
  case (Cons x xs)
  show ?case
  proof (cases "p x")
    case True
    with Cons.prems have "x \<notin> set ys" by auto
    then have "remove1 x (ys @ x # xs) = ys @ xs"
      by (simp add: remove1_append)
    with True Cons.IH [OF Cons.prems] show ?thesis by simp
  next
    case False
    with Cons.prems have "\<forall>y \<in> set (ys @ [x]). \<not> p y" by simp
    from Cons.IH [OF this] False show ?thesis by simp
  qed
qed

lemma foldl_remove1_filter_all:
  "foldl (\<lambda>acc l. remove1 l acc) xs (filter p xs) = filter (\<lambda>x. \<not> p x) xs"
  using foldl_remove1_filter [of "[]" p xs] by simp

lemma saveCredentials_replaces:
  assumes h: "validateHostname P h = Inr orig"
    and r: "realm \<in> set ALLOWED_REALMS"
    and u: "username \<noteq> []"
  shows "\<exists>w'. saveCredentials P h realm username (Some secret) w = (Inr True, w')
     \<and> logins w' =
         filter (\<lambda>l. \<not> (login_origin l = orig \<and> httpRealm l = realm \<and> login_username l = username))
           (logins w)
         @ [\<lparr> login_origin = orig, httpRealm = realm, login_username = username,
               login_password = secret \<rparr>]
     \<and> sent w' = sent w \<and> apiCache w' = apiCache w \<and> storage w' = storage w
     \<and> uploadedFiles w' = uploadedFiles w"
proof -
  let ?p = "\<lambda>l. login_origin l = orig \<and> httpRealm l = realm \<and> login_username l = username"
  have f: "filter (\<lambda>l. login_username l = username)
             (filter (\<lambda>l. login_origin l = orig \<and> httpRealm l = realm) (logins w))
           = filter ?p (logins w)"
    by (simp add: conj_commute conj_left_commute)
  have rm: "foldl (\<lambda>acc l. remove1 l acc) (logins w) (filter ?p (logins w))
            = filter (\<lambda>x. \<not> ?p x) (logins w)"
    by (rule foldl_remove1_filter_all)
  show ?thesis
    using h validateRealm_accepts [OF r] u
    by (simp add: saveCredentials_def io_bind_def io_return_def findLoginsForRealm_def
          lm_searchLogins_def lm_addLogin_def remove_logins_of_world f rm)
qed

text \<open>
  C10. For every call of \<^verbatim>\<open>saveCredentials\<close> with a valid host name (its origin is
  \<open>orig\<close>), an allowed realm, a non-empty user name and a secret string, the call returns
  true, and afterwards the login manager holds exactly one login for that origin, realm
  and user name, with the new secret; the logins of every other origin, realm or user
  name are as before.
\<close>

theorem saveCredentials_overwrites:
  assumes h: "validateHostname P h = Inr orig"
    and r: "realm \<in> set ALLOWED_REALMS"
    and u: "username \<noteq> []"
  shows "\<exists>w'. saveCredentials P h realm username (Some secret) w = (Inr True, w')
     \<and> filter (\<lambda>l. login_origin l = orig \<and> httpRealm l = realm \<and> login_username l = username)
          (logins w')
        = [\<lparr> login_origin = orig, httpRealm = realm, login_username = username,
              login_password = secret \<rparr>]
     \<and> filter (\<lambda>l. \<not> (login_origin l = orig \<and> httpRealm l = realm \<and> login_username l = username))
          (logins w')
        = filter (\<lambda>l. \<not> (login_origin l = orig \<and> httpRealm l = realm \<and> login_username l = username))
            (logins w)"
proof -
  from saveCredentials_replaces [OF h r u, of secret w]
  obtain w' where w': "saveCredentials P h realm username (Some secret) w = (Inr True, w')"
    and l': "logins w' =
         filter (\<lambda>l. \<not> (login_origin l = orig \<and> httpRealm l = realm \<and> login_username l = username))
           (logins w)
         @ [\<lparr> login_origin = orig, httpRealm = realm, login_username = username,
               login_password = secret \<rparr>]"
    by blast
  show ?thesis
    using w' by (simp add: l')
qed

theorem saveCredentials_overwrites_witness:
  "validateHostname example_platform ''https://cloud.example.com/'' = Inr ''https://cloud.example.com''
   \<and> ''Seafile FileLink'' \<in> set ALLOWED_REALMS
   \<and> (\<exists>w'. saveCredentials example_platform ''https://cloud.example.com/'' ''Seafile FileLink''
               ''alice'' (Some ''correct horse'') example_world = (Inr True, w')
          \<and> filter (\<lambda>l. login_origin l = ''https://cloud.example.com''
                        \<and> httpRealm l = ''Seafile FileLink'' \<and> login_username l = ''alice'')
               (logins w')
             = [\<lparr> login_origin = ''https://cloud.example.com'', httpRealm = ''Seafile FileLink'',
                   login_username = ''alice'', login_password = ''correct horse'' \<rparr>])"
proof -
  have v: "validateHostname example_platform ''https://cloud.example.com/''
            = Inr ''https://cloud.example.com''"
    by (simp add: validateHostname_def example_platform_def example_newURI_def trim_def
          strip_trailing_slashes_def is_js_space_def)
  have r: "''Seafile FileLink'' \<in> set ALLOWED_REALMS"
    by (simp add: ALLOWED_REALMS_def)
  have u: "''alice'' \<noteq> []" by simp
  from saveCredentials_overwrites [OF v r u, of "''correct horse''" example_world] v r
  show ?thesis by blast
qed

section \<open>Normalising a server URL\<close>

lemma dropWhile_id: "xs \<noteq> [] \<Longrightarrow> \<not> Q (hd xs) \<Longrightarrow> dropWhile Q xs = xs"
  by (cases xs) auto

lemma dropWhile_rev_id: "s \<noteq> [] \<Longrightarrow> \<not> Q (last s) \<Longrightarrow> dropWhile Q (rev s) = rev s"
  by (rule dropWhile_id) (simp_all add: hd_rev)

lemma trim_id: "s \<noteq> [] \<Longrightarrow> \<not> is_js_space (hd s) \<Longrightarrow> \<not> is_js_space (last s) \<Longrightarrow> trim s = s"
  by (simp add: trim_def dropWhile_id dropWhile_rev_id)

lemma strip_trailing_slashes_id: "s \<noteq> [] \<Longrightarrow> last s \<noteq> CHR ''/'' \<Longrightarrow> strip_trailing_slashes s = s"
  by (simp add: strip_trailing_slashes_def dropWhile_rev_id)

text \<open>
  C9. For every string that \<^verbatim>\<open>validateServerUrl\<close> accepts, normalising the result again
  gives the same string. The URL parser is the host's; what is used of it is
  \<open>URL_contract\<close>.
\<close>

theorem validateServerUrl_idempotent:
  assumes c: "URL_contract (URL P)" and x: "validateServerUrl P x = Inr y"
  shows "validateServerUrl P y = Inr y"
proof -
  from x obtain u where u: "URL P (strip_trailing_slashes (trim x)) = Some u"
    and pr: "protocol u = ''https:'' \<or> protocol u = ''http:''" and y: "y = origin u"
    by (auto simp: validateServerUrl_def split: if_splits option.splits)
  from c u pr have ne: "origin u \<noteq> []" and h: "\<not> is_js_space (hd (origin u))"
    and l: "\<not> is_js_space (last (origin u))" and sl: "last (origin u) \<noteq> CHR ''/''"
    and re: "\<exists>u'. URL P (origin u) = Some u' \<and> protocol u' = protocol u \<and> origin u' = origin u"
    unfolding URL_contract_def by blast+
  from re obtain u' where u': "URL P (origin u) = Some u'" "protocol u' = protocol u"
    "origin u' = origin u" by blast
  have t: "strip_trailing_slashes (trim (origin u)) = origin u"
    using trim_id [OF ne h l] strip_trailing_slashes_id [OF ne sl] by simp
  show ?thesis
    using ne u' pr by (auto simp: validateServerUrl_def t y)
qed

lemma example_URL_contract: "URL_contract example_URL"
  unfolding URL_contract_def
  by (auto simp: example_URL_def is_js_space_def split: if_splits)

theorem validateServerUrl_idempotent_witness:
  "URL_contract (URL example_platform)
   \<and> validateServerUrl example_platform '' https://cloud.example.com/seafhttp/upload-api/abc// ''
       = Inr ''https://cloud.example.com''
   \<and> validateServerUrl example_platform ''https://cloud.example.com'' = Inr ''https://cloud.example.com''"
proof -
  have c: "URL_contract (URL example_platform)"
    by (simp add: example_platform_def example_URL_contract)
  have x: "validateServerUrl example_platform '' https://cloud.example.com/seafhttp/upload-api/abc// ''
       = Inr ''https://cloud.example.com''"
    by (simp add: validateServerUrl_def example_platform_def example_URL_def trim_def
          strip_trailing_slashes_def is_js_space_def)
  from validateServerUrl_idempotent [OF c x] c x show ?thesis by simp
qed

section \<open>The liveness probe\<close>

lemma ping_result:
  "ping P a w =
     (case network P (sent w) (PingReq (serverUrl a) (token a)) of
        Rejected \<Rightarrow> Inl NetworkError
      | Response r \<Rightarrow> Inr (ok r),
      w\<lparr>sent := sent w @ [PingReq (serverUrl a) (token a)]\<rparr>)"
  by (simp add: ping_def io_bind_def fetch_def io_return_def split: fetch_result.splits)

lemma probe_result:
  "probe P a w =
     (Inr (case network P (sent w) (PingReq (serverUrl a) (token a)) of
             Rejected \<Rightarrow> False
           | Response r \<Rightarrow> ok r),
      w\<lparr>sent := sent w @ [PingReq (serverUrl a) (token a)]\<rparr>)"
  by (simp add: probe_def io_catch_def ping_result io_return_def split: fetch_result.splits)

lemma ok_401: "status r = 401 \<Longrightarrow> \<not> ok r"
  by (simp add: ok_def)

text \<open>Replacing rejected probes by 401 answers changes nothing that is not a probe.\<close>

lemma fetch_as_401:
  "(case req of PingReq _ _ \<Rightarrow> False | _ \<Rightarrow> True) \<Longrightarrow>
     fetch (P\<lparr>network := ping_failures_as_401 (network P)\<rparr>) req = fetch P req"
  by (cases req) (simp_all add: fetch_def ping_failures_as_401_def fun_eq_iff)

lemma probe_as_401:
  "probe (P\<lparr>network := ping_failures_as_401 (network P)\<rparr>) a = probe P a"
  by (rule ext)
     (simp add: probe_result ping_failures_as_401_def ok_def split: fetch_result.splits)

lemma validateServerUrl_as_401:
  "validateServerUrl (P\<lparr>network := n\<rparr>) = validateServerUrl P"
  by (simp add: validateServerUrl_def fun_eq_iff)

lemma validateHostname_as_401:
  "validateHostname (P\<lparr>network := n\<rparr>) = validateHostname P"
  by (simp add: validateHostname_def fun_eq_iff)

lemma getCredentials_as_401:
  "getCredentials (P\<lparr>network := n\<rparr>) = getCredentials P"
  by (simp add: getCredentials_def fun_eq_iff validateHostname_as_401)

lemma saveCredentials_as_401:
  "saveCredentials (P\<lparr>network := n\<rparr>) = saveCredentials P"
  by (simp add: saveCredentials_def fun_eq_iff validateHostname_as_401)

lemma getSecret_as_401:
  "getSecret (P\<lparr>network := n\<rparr>) = getSecret P"
  by (simp add: getSecret_def fun_eq_iff getCredentials_as_401)

lemma saveSecret_as_401:
  "saveSecret (P\<lparr>network := n\<rparr>) = saveSecret P"
  by (simp add: saveSecret_def fun_eq_iff saveCredentials_as_401 cong: option.case_cong if_cong)

lemma new_SeafileAPI_as_401:
  "new_SeafileAPI (P\<lparr>network := n\<rparr>) = new_SeafileAPI P"
  by (simp add: new_SeafileAPI_def fun_eq_iff validateServerUrl_as_401)

lemma authenticate_as_401:
  "authenticate (P\<lparr>network := ping_failures_as_401 (network P)\<rparr>) = authenticate P"
  by (simp add: authenticate_def fun_eq_iff fetch_as_401 cong: sum.case_cong option.case_cong if_cong)

lemma tier1_as_401:
  "tier1_cached (P\<lparr>network := ping_failures_as_401 (network P)\<rparr>) = tier1_cached P"
  by (simp add: tier1_cached_def fun_eq_iff probe_as_401 cong: option.case_cong if_cong)

lemma tier2_as_401:
  "tier2_stored_token (P\<lparr>network := ping_failures_as_401 (network P)\<rparr>) = tier2_stored_token P"
  by (simp add: tier2_stored_token_def fun_eq_iff probe_as_401 getSecret_as_401 new_SeafileAPI_as_401
        cong: option.case_cong if_cong)

lemma tier3_as_401:
  "tier3_reauthenticate (P\<lparr>network := ping_failures_as_401 (network P)\<rparr>) = tier3_reauthenticate P"
  by (simp add: tier3_reauthenticate_def fun_eq_iff authenticate_as_401 getCredentials_as_401
        new_SeafileAPI_as_401 saveSecret_as_401 cong: option.case_cong if_cong)

lemma getAuthenticatedAPI_as_401:
  "getAuthenticatedAPI (P\<lparr>network := ping_failures_as_401 (network P)\<rparr>) = getAuthenticatedAPI P"
  by (simp add: getAuthenticatedAPI_def fun_eq_iff tier1_as_401 tier2_as_401 tier3_as_401
        validateServerUrl_as_401 cong: option.case_cong if_cong)

text \<open>
  C6, as the code has it. \<^verbatim>\<open>ping\<close> returns a boolean for every response, false for a
  401; for a network error it does not return false but throws, since the rejected
  \<^verbatim>\<open>fetch\<close> is not caught in it. At the session manager the probe is wrapped: there a
  network error and a failed probe both count as false, the probe never throws, and
  \<^verbatim>\<open>getAuthenticatedAPI\<close> does on a network that rejects probes exactly what it does on
  the network that answers those probes with 401.
\<close>

theorem ping_throws_probe_does_not:
  "(\<forall>r. network P (sent w) (PingReq (serverUrl a) (token a)) = Response r \<longrightarrow>
       ping P a w = (Inr (ok r), w\<lparr>sent := sent w @ [PingReq (serverUrl a) (token a)]\<rparr>)
       \<and> (status r = 401 \<longrightarrow> fst (ping P a w) = Inr False))
   \<and> (network P (sent w) (PingReq (serverUrl a) (token a)) = Rejected \<longrightarrow>
       ping P a w = (Inl NetworkError, w\<lparr>sent := sent w @ [PingReq (serverUrl a) (token a)]\<rparr>)
       \<and> probe P a w = (Inr False, w\<lparr>sent := sent w @ [PingReq (serverUrl a) (token a)]\<rparr>))
   \<and> (\<forall>r. network P (sent w) (PingReq (serverUrl a) (token a)) = Response r \<and> \<not> ok r \<longrightarrow>
       probe P a w = (Inr False, w\<lparr>sent := sent w @ [PingReq (serverUrl a) (token a)]\<rparr>))
   \<and> (\<exists>alive. probe P a w = (Inr alive, w\<lparr>sent := sent w @ [PingReq (serverUrl a) (token a)]\<rparr>))
   \<and> getAuthenticatedAPI (P\<lparr>network := ping_failures_as_401 (network P)\<rparr>) account w
       = getAuthenticatedAPI P account w"
  by (simp add: ping_result probe_result getAuthenticatedAPI_as_401 ok_401)


theorem ping_throws_probe_does_not_witness:
  "ping example_platform \<lparr> serverUrl = ''https://cloud.example.com'', token = Some ''stale'' \<rparr>
       example_world
     = (Inr False, example_world\<lparr>sent := [PingReq ''https://cloud.example.com'' (Some ''stale'')]\<rparr>)
   \<and> ping offline_platform \<lparr> serverUrl = ''https://cloud.example.com'', token = Some ''stale'' \<rparr>
       example_world
     = (Inl NetworkError,
        example_world\<lparr>sent := [PingReq ''https://cloud.example.com'' (Some ''stale'')]\<rparr>)
   \<and> probe offline_platform \<lparr> serverUrl = ''https://cloud.example.com'', token = Some ''stale'' \<rparr>
       example_world
     = (Inr False, example_world\<lparr>sent := [PingReq ''https://cloud.example.com'' (Some ''stale'')]\<rparr>)"
proof -
  let ?api = "\<lparr> serverUrl = ''https://cloud.example.com'', token = Some ''stale'' \<rparr>"
  have r: "network example_platform (sent example_world) (PingReq (serverUrl ?api) (token ?api))
             = Response \<lparr> status = 401, body = None \<rparr>"
    by (simp add: example_platform_def example_network_def)
  have n: "network offline_platform (sent example_world) (PingReq (serverUrl ?api) (token ?api))
             = Rejected"
    by (simp add: offline_platform_def)
  have a: "ping example_platform ?api example_world
     = (Inr False, example_world\<lparr>sent := [PingReq ''https://cloud.example.com'' (Some ''stale'')]\<rparr>)"
    using ping_throws_probe_does_not [where P = example_platform and a = ?api and w = example_world,
        THEN conjunct1, rule_format, OF r]
    by (simp add: ok_def example_world_def)
  have b: "ping offline_platform ?api example_world
       = (Inl NetworkError,
          example_world\<lparr>sent := [PingReq ''https://cloud.example.com'' (Some ''stale'')]\<rparr>)
     \<and> probe offline_platform ?api example_world
       = (Inr False, example_world\<lparr>sent := [PingReq ''https://cloud.example.com'' (Some ''stale'')]\<rparr>)"
    using ping_throws_probe_does_not [where P = offline_platform and a = ?api and w = example_world,
        THEN conjunct2, THEN conjunct1, rule_format, OF n]
    by (simp add: example_world_def)
  from a b show ?thesis by simp
qed

text \<open>The claim as it was stated fails for the network error: with the network down,
  \<^verbatim>\<open>ping\<close> throws and does not return false.\<close>

theorem ping_network_error_counterexample:
  "fst (ping offline_platform \<lparr> serverUrl = ''https://cloud.example.com'', token = Some ''tok123'' \<rparr>
          example_world) = Inl NetworkError
   \<and> fst (ping offline_platform \<lparr> serverUrl = ''https://cloud.example.com'', token = Some ''tok123'' \<rparr>
          example_world) \<noteq> Inr False"
  by (simp add: ping_result offline_platform_def)

section \<open>Session acquisition\<close>

lemma tier1_cached_result:
  "tier1_cached P account w =
     (case apiCache w account of
        None \<Rightarrow> (Inr None, w)
      | Some a \<Rightarrow>
          (case network P (sent w) (PingReq (serverUrl a) (token a)) of
             Rejected \<Rightarrow>
               (Inr None, w\<lparr>sent := sent w @ [PingReq (serverUrl a) (token a)],
                            apiCache := (apiCache w)(account := None)\<rparr>)
           | Response r \<Rightarrow>
               if ok r then (Inr (Some a), w\<lparr>sent := sent w @ [PingReq (serverUrl a) (token a)]\<rparr>)
               else (Inr None, w\<lparr>sent := sent w @ [PingReq (serverUrl a) (token a)],
                                 apiCache := (apiCache w)(account := None)\<rparr>)))"
  by (simp add: tier1_cached_def io_bind_def probe_result io_return_def apiCache_delete_def
        split: option.splits fetch_result.splits)


lemma getCredentials_result:
  "getCredentials P h realm w =
     (case validateHostname P h of
        Inl e \<Rightarrow> (Inl (LoginManagerError e), w)
      | Inr orig \<Rightarrow>
          (case validateRealm realm of
             Inl e \<Rightarrow> (Inl (LoginManagerError e), w)
           | Inr safeRealm \<Rightarrow>
               (Inr (case filter (\<lambda>l. login_origin l = orig \<and> httpRealm l = safeRealm) (logins w) of
                       [] \<Rightarrow> None
                     | l # _ \<Rightarrow> Some \<lparr> cred_username = login_username l,
                                        cred_password = login_password l \<rparr>),
                w\<lparr>lm_calls := lm_calls w @ [SearchLogins orig safeRealm]\<rparr>)))"
  by (simp add: getCredentials_def io_throw_def io_bind_def findLoginsForRealm_def
        lm_searchLogins_def io_return_def split: sum.splits list.splits)






lemma authenticate_serverUrl:
  "authenticate P a0 u pw otp w = (Inr a, w1) \<Longrightarrow> serverUrl a = serverUrl a0"
  by (auto simp: authenticate_def io_bind_def fetch_def io_throw_def response_json_def
        io_return_def split: fetch_result.splits if_splits option.splits sum.splits)




lemma getAuthenticatedAPI_tiers:
  assumes "storage w account = Some cfg" "cfg_serverUrl cfg \<noteq> []"
    "validateServerUrl P (cfg_serverUrl cfg) = Inr srv"
  shows "getAuthenticatedAPI P account w =
     (case tier1_cached P account w of
        (Inl e, w1) \<Rightarrow> (Inl e, w1)
      | (Inr (Some a), w1) \<Rightarrow> (Inr a, w1)
      | (Inr None, w1) \<Rightarrow>
          (case tier2_stored_token P account srv w1 of
             (Inl e, w2) \<Rightarrow> (Inl e, w2)
           | (Inr (Some a), w2) \<Rightarrow> (Inr a, w2)
           | (Inr None, w2) \<Rightarrow> tier3_reauthenticate P account srv w2))"
  using assms
  by (simp add: getAuthenticatedAPI_def io_bind_def loadAccountConfig_def io_lift_def
        io_return_def split: prod.splits sum.splits option.splits)





lemma example_validateServerUrl:
  "validateServerUrl example_platform ''https://cloud.example.com'' = Inr ''https://cloud.example.com''"
  by (simp add: validateServerUrl_def example_platform_def example_URL_def trim_def
        strip_trailing_slashes_def is_js_space_def)

lemma example_validateHostname:
  "validateHostname example_platform ''https://cloud.example.com'' = Inr ''https://cloud.example.com''"
  by (simp add: validateHostname_def example_platform_def example_newURI_def trim_def
        strip_trailing_slashes_def is_js_space_def)


lemma example_realms:
  "validateRealm REALMS_PASSWORD = Inr REALMS_PASSWORD"
  "validateRealm REALMS_TOKEN = Inr REALMS_TOKEN"
  "validateRealm REALMS_SHARE_PW = Inr REALMS_SHARE_PW"
  "validateRealm ''Seafile FileLink'' = Inr ''Seafile FileLink''"
  "validateRealm ''Seafile FileLink Token'' = Inr ''Seafile FileLink Token''"
  "validateRealm ''Seafile FileLink SharePW'' = Inr ''Seafile FileLink SharePW''"
  by (simp_all add: validateRealm_def ALLOWED_REALMS_def REALMS_PASSWORD_def REALMS_TOKEN_def
        REALMS_SHARE_PW_def)


section \<open>What leaves the upload table alone\<close>

lemma keeps_uploadsD:
  "keeps_uploads m \<Longrightarrow> m w = (r, w') \<Longrightarrow>
     uploadedFiles w' = uploadedFiles w \<and> upload_requests w' = upload_requests w"
  by (auto simp: keeps_uploads_def dest: spec [of _ w])

lemma keeps_return: "keeps_uploads (io_return x)"
  by (simp add: keeps_uploads_def io_return_def)

lemma keeps_throw: "keeps_uploads (io_throw e)"
  by (simp add: keeps_uploads_def io_throw_def)

lemma keeps_lift: "keeps_uploads (io_lift r)"
  by (simp add: keeps_uploads_def io_lift_def)

lemma keeps_bind: "keeps_uploads m \<Longrightarrow> (\<And>x. keeps_uploads (f x)) \<Longrightarrow> keeps_uploads (io_bind m f)"
  by (auto simp: keeps_uploads_def io_bind_def split: prod.splits sum.splits)
     (metis snd_conv)+

lemma keeps_catch: "keeps_uploads m \<Longrightarrow> (\<And>e. keeps_uploads (h e)) \<Longrightarrow> keeps_uploads (io_catch m h)"
  by (auto simp: keeps_uploads_def io_catch_def split: prod.splits sum.splits)
     (metis snd_conv)+

lemma keeps_fetch: "\<not> is_upload req \<Longrightarrow> keeps_uploads (fetch P req)"
  by (simp add: keeps_uploads_def fetch_def upload_requests_def split: fetch_result.splits)

lemma keeps_response_json: "keeps_uploads (response_json r)"
  by (simp add: response_json_def keeps_return keeps_throw split: option.splits)

lemma keeps_lm:
  "keeps_uploads (lm_searchLogins orig realm)" "keeps_uploads (lm_removeLogin l)"
  "keeps_uploads (lm_addLogin l)" "keeps_uploads (findLoginsForRealm orig realm)"
  by (simp_all add: keeps_uploads_def lm_searchLogins_def lm_removeLogin_def lm_addLogin_def
        findLoginsForRealm_def upload_requests_def)

lemma keeps_remove_logins_of: "keeps_uploads (remove_logins_of u ls)"
  by (induction ls) (auto intro!: keeps_return keeps_bind keeps_lm)

lemma keeps_cache:
  "keeps_uploads (apiCache_set account a)" "keeps_uploads (apiCache_delete account)"
  "keeps_uploads (loadAccountConfig account)"
  by (simp_all add: keeps_uploads_def apiCache_set_def apiCache_delete_def loadAccountConfig_def
        upload_requests_def)

lemmas keeps_basic = keeps_return keeps_throw keeps_lift keeps_bind keeps_catch keeps_fetch
  keeps_response_json keeps_lm keeps_remove_logins_of keeps_cache

lemma keeps_saveCredentials: "keeps_uploads (saveCredentials P h realm u pw)"
  unfolding saveCredentials_def
  by (auto intro!: keeps_basic simp: is_upload_def split: sum.splits option.splits)

lemma keeps_getCredentials: "keeps_uploads (getCredentials P h realm)"
  unfolding getCredentials_def
  by (auto intro!: keeps_basic simp: is_upload_def split: sum.splits option.splits list.splits)

lemma keeps_getSecret: "keeps_uploads (getSecret P h realm)"
  unfolding getSecret_def
  by (auto intro!: keeps_basic simp: is_upload_def keeps_getCredentials)

lemma keeps_saveSecret: "keeps_uploads (saveSecret P h realm k v)"
  unfolding saveSecret_def
  by (auto intro!: keeps_basic simp: is_upload_def keeps_saveCredentials split: option.splits)

lemma keeps_authenticate: "keeps_uploads (authenticate P a u pw otp)"
  unfolding authenticate_def
  by (auto intro!: keeps_basic simp: is_upload_def split: sum.splits option.splits)

lemma keeps_ping: "keeps_uploads (ping P a)"
  unfolding ping_def by (auto intro!: keeps_basic simp: is_upload_def)

lemma keeps_probe: "keeps_uploads (probe P a)"
  unfolding probe_def by (auto intro!: keeps_basic simp: is_upload_def keeps_ping)

lemma keeps_tier1: "keeps_uploads (tier1_cached P account)"
  by (simp add: keeps_uploads_def tier1_cached_result upload_requests_def is_upload_def
        split: option.splits fetch_result.splits)

lemma keeps_tier2: "keeps_uploads (tier2_stored_token P account srv)"
  unfolding tier2_stored_token_def Let_def
  by (auto intro!: keeps_basic simp: is_upload_def keeps_getSecret keeps_probe split: option.splits)

lemma keeps_tier3: "keeps_uploads (tier3_reauthenticate P account srv)"
  unfolding tier3_reauthenticate_def
  by (auto intro!: keeps_basic simp: is_upload_def keeps_getCredentials keeps_authenticate keeps_saveSecret
        split: option.splits)

lemma keeps_getAuthenticatedAPI: "keeps_uploads (getAuthenticatedAPI P account)"
  unfolding getAuthenticatedAPI_def
  by (auto intro!: keeps_basic simp: is_upload_def keeps_tier1 keeps_tier2 keeps_tier3 split: option.splits)

lemma keeps_ensureDirectory: "keeps_uploads (ensureDirectory P a repo p)"
  unfolding ensureDirectory_def Let_def by (auto intro!: keeps_basic simp: is_upload_def)

lemma keeps_getUploadLink: "keeps_uploads (getUploadLink P a repo p)"
  unfolding getUploadLink_def Let_def by (auto intro!: keeps_basic simp: is_upload_def split: option.splits)

lemma uploadFile_table:
  "uploadFile P a l p f sig w = (r, w') \<Longrightarrow> uploadedFiles w' = uploadedFiles w"
  by (auto simp: uploadFile_def io_bind_def fetch_def io_throw_def response_json_def io_return_def
        split: fetch_result.splits if_splits option.splits)

lemma keeps_createShareLink: "keeps_uploads (createShareLink P a repo p opts)"
  unfolding createShareLink_def by (auto intro!: keeps_basic simp: is_upload_def)

lemma keeps_deleteFile: "keeps_uploads (deleteFile P a repo p)"
  unfolding deleteFile_def Let_def by (auto intro!: keeps_basic simp: is_upload_def)

lemma keeps_upload_prepare: "keeps_uploads (upload_prepare P account)"
  unfolding upload_prepare_def
  by (auto intro!: keeps_basic simp: is_upload_def keeps_getAuthenticatedAPI keeps_ensureDirectory keeps_getUploadLink
        split: option.splits)

section \<open>The upload listener, step by step\<close>

text \<open>The second part of the listener, step by step.\<close>

lemma upload_transfer_steps:
  "upload_transfer P account fid f (a, cfg, uploadLink) w3 =
     (case uploadFile P a uploadLink (target_dir cfg) f None w3 of
        (Inl e, w4) \<Rightarrow> (Inl e, w4)
      | (Inr j, w4) \<Rightarrow>
     (case validateServerUrl P (cfg_serverUrl cfg) of
        Inl e \<Rightarrow> (Inl e, w4)
      | Inr srv \<Rightarrow>
     (case getSecret P srv REALMS_SHARE_PW w4 of
        (Inl e, w5) \<Rightarrow> (Inl e, w5)
      | (Inr sharePw, w5) \<Rightarrow>
     (case createShareLink P a (repoId cfg) (file_path cfg f) (share_options cfg sharePw) w5 of
        (Inl e, w6) \<Rightarrow> (Inl e, w6)
      | (Inr shareLink, w6) \<Rightarrow>
     (case get_prop shareLink ''token'' of
        Inl e \<Rightarrow> (Inl e, w6)
      | Inr tok \<Rightarrow>
          (Inr (UploadDone (map_of (case shareLink of JObj kvs \<Rightarrow> kvs | _ \<Rightarrow> []) ''link'')
             \<lparr> service_url = cfg_serverUrl cfg,
               download_expiry_date = (if expires cfg then Some (shareLinkExpireDays cfg) else None),
               download_password_protected = password_protected sharePw \<rparr>),
           w6\<lparr>uploadedFiles := (uploadedFiles w6)(fid \<mapsto>
               \<lparr> rec_repoId = repoId cfg, filePath = file_path cfg f,
                 accountId = account, shareLinkToken = tok \<rparr>)\<rparr>))))))"
  by (cases "uploadFile P a uploadLink (target_dir cfg) f None w3")
     (auto simp: upload_transfer_def io_bind_def io_lift_def io_return_def uploadedFiles_set_def
        get_prop_def split: prod.splits sum.splits json.splits)

lemma upload_transfer_throws:
  assumes "upload_transfer P account fid f (a, cfg, uploadLink) w3 = (Inl e, w')"
  shows "uploadedFiles w' = uploadedFiles w3"
  using assms
  by (auto simp: upload_transfer_steps split: prod.splits sum.splits
        dest!: uploadFile_table keeps_uploadsD [OF keeps_getSecret]
            keeps_uploadsD [OF keeps_createShareLink])

lemma upload_transfer_returns:
  assumes "upload_transfer P account fid f (a, cfg, uploadLink) w3 = (Inr r, w')"
  shows "\<exists>j w4 srv sharePw w5 shareLink w6 tok link.
           uploadFile P a uploadLink (target_dir cfg) f None w3 = (Inr j, w4)
         \<and> validateServerUrl P (cfg_serverUrl cfg) = Inr srv
         \<and> getSecret P srv REALMS_SHARE_PW w4 = (Inr sharePw, w5)
         \<and> createShareLink P a (repoId cfg) (file_path cfg f) (share_options cfg sharePw) w5
             = (Inr shareLink, w6)
         \<and> get_prop shareLink ''token'' = Inr tok
         \<and> w' = w6\<lparr>uploadedFiles := (uploadedFiles w6)(fid \<mapsto>
                   \<lparr> rec_repoId = repoId cfg, filePath = file_path cfg f,
                     accountId = account, shareLinkToken = tok \<rparr>)\<rparr>
         \<and> r = UploadDone link
               \<lparr> service_url = cfg_serverUrl cfg,
                 download_expiry_date = (if expires cfg then Some (shareLinkExpireDays cfg) else None),
                 download_password_protected = password_protected sharePw \<rparr>"
  using assms
  by (auto simp: upload_transfer_steps split: prod.splits sum.splits)

text \<open>The first part of the listener, step by step.\<close>

lemma upload_prepare_steps:
  "upload_prepare P account w =
     (case getAuthenticatedAPI P account w of
        (Inl e, w1) \<Rightarrow> (Inl e, w1)
      | (Inr a, w1) \<Rightarrow>
     (case storage w1 account of
        None \<Rightarrow> (Inl TypeError, w1)
      | Some cfg \<Rightarrow>
     (case ensureDirectory P a (repoId cfg) (target_dir cfg) w1 of
        (Inl e, w2) \<Rightarrow> (Inl e, w2)
      | (Inr _, w2) \<Rightarrow>
     (case getUploadLink P a (repoId cfg) (target_dir cfg) w2 of
        (Inl e, w3) \<Rightarrow> (Inl e, w3)
      | (Inr uploadLink, w3) \<Rightarrow> (Inr (a, cfg, uploadLink), w3)))))"
  by (auto simp: upload_prepare_def io_bind_def loadAccountConfig_def io_throw_def io_return_def
        split: prod.splits sum.splits option.splits)

lemma onFileUpload_steps:
  "onFileUpload P account fid f w =
     (case upload_prepare P account w of
        (Inl e, w3) \<Rightarrow> (Inr (UploadError e), w3)
      | (Inr ctx, w3) \<Rightarrow>
          (case upload_transfer P account fid f ctx w3 of
             (Inl e, w') \<Rightarrow> (Inr (UploadError e), w')
           | (Inr r, w') \<Rightarrow> (Inr r, w')))"
  by (auto simp: onFileUpload_def io_catch_def io_bind_def io_return_def
        split: prod.splits sum.splits)

section \<open>The client on the example platform\<close>

lemma getAuthenticatedAPI_cache_hit:
  assumes "storage w account = Some cfg" "cfg_serverUrl cfg \<noteq> []"
    "validateServerUrl P (cfg_serverUrl cfg) = Inr srv"
    "apiCache w account = Some a"
    "network P (sent w) (PingReq (serverUrl a) (token a)) = Response r" "ok r"
  shows "getAuthenticatedAPI P account w
           = (Inr a, w\<lparr>sent := sent w @ [PingReq (serverUrl a) (token a)]\<rparr>)"
  using assms(4-6)
  by (simp add: getAuthenticatedAPI_tiers [OF assms(1-3)] tier1_cached_result)

lemma example_target_dir: "target_dir example_config = ''/Thunderbird-Attachments''"
  by (simp add: target_dir_def example_config_def sanitizePath_def startsWith_slash_def)

lemma example_file_path: "file_path example_config example_file = ''/Thunderbird-Attachments/report.pdf''"
  by (simp add: file_path_def example_target_dir example_file_def sanitizePath_def
        startsWith_slash_def)

lemma sanitize_examples:
  "sanitizePath ''/Thunderbird-Attachments'' = ''/Thunderbird-Attachments''"
  "sanitizePath ''/Thunderbird-Attachments/report.pdf'' = ''/Thunderbird-Attachments/report.pdf''"
  by (simp_all add: sanitizePath_def startsWith_slash_def)

text \<open>The steps of the client on the example platform, in any world.\<close>

lemma example_ping:
  "network example_platform h (PingReq (serverUrl example_session) (token example_session))
     = Response \<lparr> status = 200, body = Some (JStr ''pong'') \<rparr>"
  by (simp add: example_platform_def example_network_def example_session_def)

lemma example_ensureDirectory:
  "ensureDirectory example_platform example_session repo p w
     = (Inr (), w\<lparr>sent := sent w @ [MkdirReq ''https://cloud.example.com'' (Some ''tok123'') repo
                                      (sanitizePath p)]\<rparr>)"
  by (simp add: ensureDirectory_def Let_def io_bind_def fetch_def example_platform_def
        example_network_def ok_def io_return_def example_session_def)

lemma example_getUploadLink:
  "getUploadLink example_platform example_session ''lib1'' p w
     = (Inr ''https://cloud.example.com/seafhttp/upload-api/abc'',
        w\<lparr>sent := sent w @ [UploadLinkReq ''https://cloud.example.com'' (Some ''tok123'') ''lib1''
                               (sanitizePath p)]\<rparr>)"
  by (simp add: getUploadLink_def Let_def io_bind_def fetch_def example_platform_def
        example_network_def ok_def io_return_def response_json_def example_session_def
        example_URL_def)

lemma example_getUploadLink_foreign:
  "getUploadLink example_platform example_session ''lib2'' p w
     = (Inl (SeafileError UPLOAD_LINK_UNTRUSTED),
        w\<lparr>sent := sent w @ [UploadLinkReq ''https://cloud.example.com'' (Some ''tok123'') ''lib2''
                               (sanitizePath p)]\<rparr>)"
  by (simp add: getUploadLink_def Let_def io_bind_def fetch_def example_platform_def
        example_network_def ok_def io_return_def response_json_def example_session_def
        example_URL_def io_throw_def)

lemma example_uploadFile:
  "uploadFile example_platform example_session link p f sig w
     = (Inr (JArr [JObj [(''name'', JStr (file_name f))]]),
        w\<lparr>sent := sent w @ [UploadReq (link @ ''?ret-json=1'') (Some ''tok123'') (sanitizePath p) f sig]\<rparr>)"
  by (simp add: uploadFile_def io_bind_def fetch_def example_platform_def
        example_network_def ok_def io_return_def response_json_def example_session_def)

lemma example_createShareLink:
  "createShareLink example_platform example_session repo p opts w
     = (Inr (JObj [(''token'', JStr ''sl1''), (''link'', JStr ''https://cloud.example.com/f/sl1/'')]),
        w\<lparr>sent := sent w @ [ShareLinkReq ''https://cloud.example.com'' (Some ''tok123'')
                               (createShareLink_body repo p opts)]\<rparr>)"
  by (simp add: createShareLink_def io_bind_def fetch_def example_platform_def
        example_network_def ok_def io_return_def response_json_def example_session_def)

lemma example_deleteFile:
  "deleteFile example_platform example_session repo p w
     = (Inr True,
        w\<lparr>sent := sent w @ [DeleteFileReq ''https://cloud.example.com'' (Some ''tok123'') repo
                               (sanitizePath p)]\<rparr>)"
  by (simp add: deleteFile_def Let_def io_bind_def fetch_def example_platform_def
        example_network_def ok_def io_return_def example_session_def)

lemma example_no_share_password:
  "logins w = [example_password_login] \<Longrightarrow>
     getSecret example_platform ''https://cloud.example.com'' REALMS_SHARE_PW w
       = (Inr None, w\<lparr>lm_calls := lm_calls w
            @ [SearchLogins ''https://cloud.example.com'' REALMS_SHARE_PW]\<rparr>)"
  by (simp add: getSecret_def io_bind_def io_return_def getCredentials_result
        example_validateHostname example_realms example_password_login_def REALMS_SHARE_PW_def)

lemma example_session_acquired:
  assumes "storage w ''acc1'' = Some cfg" "cfg_serverUrl cfg = ''https://cloud.example.com''"
    "apiCache w ''acc1'' = Some example_session"
  shows "getAuthenticatedAPI example_platform ''acc1'' w
     = (Inr example_session,
        w\<lparr>sent := sent w @ [PingReq ''https://cloud.example.com'' (Some ''tok123'')]\<rparr>)"
proof -
  have v: "validateServerUrl example_platform (cfg_serverUrl cfg) = Inr ''https://cloud.example.com''"
    by (simp add: assms(2) example_validateServerUrl)
  have n: "cfg_serverUrl cfg \<noteq> []" by (simp add: assms(2))
  have o: "ok \<lparr> status = 200, body = Some (JStr ''pong'') \<rparr>" by (simp add: ok_def)
  from getAuthenticatedAPI_cache_hit [OF assms(1) n v assms(3) example_ping o]
  show ?thesis by (simp add: example_session_def)
qed

lemma cached_world_fields:
  "storage cached_world ''acc1'' = Some example_config"
  "apiCache cached_world ''acc1'' = Some example_session"
  "logins cached_world = [example_password_login]"
  "sent cached_world = []" "lm_calls cached_world = []" "uploadedFiles cached_world = Map.empty"
  "cfg_serverUrl example_config = ''https://cloud.example.com''"
  "repoId example_config = ''lib1''"
  by (simp_all add: cached_world_def example_world_def example_config_def)

lemma example_prepare:
  "upload_prepare example_platform ''acc1'' cached_world
     = (Inr (example_session, example_config, ''https://cloud.example.com/seafhttp/upload-api/abc''),
        cached_world\<lparr>sent :=
            [PingReq ''https://cloud.example.com'' (Some ''tok123''),
             MkdirReq ''https://cloud.example.com'' (Some ''tok123'') ''lib1'' ''/Thunderbird-Attachments'',
             UploadLinkReq ''https://cloud.example.com'' (Some ''tok123'') ''lib1''
               ''/Thunderbird-Attachments'']\<rparr>)"
  by (simp add: upload_prepare_steps
        example_session_acquired [OF cached_world_fields(1) cached_world_fields(7) cached_world_fields(2)]
        cached_world_fields example_ensureDirectory example_getUploadLink
        example_target_dir sanitize_examples)

lemma example_share_options:
  "share_options example_config None
     = \<lparr> opt_password = None, opt_expireDays = JsNumber (number_of_int 7) \<rparr>"
  by (simp add: share_options_def password_protected_def expires_def example_config_def)

lemma example_transfer:
  assumes "logins w = [example_password_login]"
  shows "upload_transfer example_platform ''acc1'' fid example_file
       (example_session, example_config, ''https://cloud.example.com/seafhttp/upload-api/abc'') w
     = (Inr (UploadDone (Some (JStr ''https://cloud.example.com/f/sl1/''))
              \<lparr> service_url = ''https://cloud.example.com'', download_expiry_date = Some 7,
                download_password_protected = False \<rparr>),
        w\<lparr>sent := sent w @
             [UploadReq ''https://cloud.example.com/seafhttp/upload-api/abc?ret-json=1''
                (Some ''tok123'') ''/Thunderbird-Attachments'' example_file None,
              ShareLinkReq ''https://cloud.example.com'' (Some ''tok123'')
                \<lparr> repo_id = ''lib1'', path = ''/Thunderbird-Attachments/report.pdf'',
                  password = None, expire_days = Some 7 \<rparr>],
           lm_calls := lm_calls w @ [SearchLogins ''https://cloud.example.com'' REALMS_SHARE_PW],
           uploadedFiles := (uploadedFiles w)(fid \<mapsto>
              \<lparr> rec_repoId = ''lib1'', filePath = ''/Thunderbird-Attachments/report.pdf'',
                accountId = ''acc1'', shareLinkToken = Some (JStr ''sl1'') \<rparr>)\<rparr>)"
proof -
  have b: "createShareLink_body ''lib1'' ''/Thunderbird-Attachments/report.pdf''
             \<lparr> opt_password = None, opt_expireDays = JsNumber (number_of_int 7) \<rparr>
           = \<lparr> repo_id = ''lib1'', path = ''/Thunderbird-Attachments/report.pdf'',
               password = None, expire_days = Some 7 \<rparr>"
    by (simp add: createShareLink_body_def sanitize_examples guard_number validatePositiveInt_of_int)
       (simp add: number_of_int_def number_positive_def)
  have g: "getSecret example_platform ''https://cloud.example.com'' REALMS_SHARE_PW
             (w\<lparr>sent := sent w @
               [UploadReq ''https://cloud.example.com/seafhttp/upload-api/abc?ret-json=1''
                  (Some ''tok123'') ''/Thunderbird-Attachments'' example_file None]\<rparr>)
           = (Inr None, w\<lparr>sent := sent w @
               [UploadReq ''https://cloud.example.com/seafhttp/upload-api/abc?ret-json=1''
                  (Some ''tok123'') ''/Thunderbird-Attachments'' example_file None],
                lm_calls := lm_calls w @ [SearchLogins ''https://cloud.example.com'' REALMS_SHARE_PW]\<rparr>)"
    using example_no_share_password [of "w\<lparr>sent := sent w @
               [UploadReq ''https://cloud.example.com/seafhttp/upload-api/abc?ret-json=1''
                  (Some ''tok123'') ''/Thunderbird-Attachments'' example_file None]\<rparr>"] assms
    by simp
  show ?thesis
    by (simp add: upload_transfer_steps example_uploadFile example_target_dir sanitize_examples
          cached_world_fields example_validateServerUrl g example_share_options example_file_path
          example_createShareLink b get_prop_def expires_def password_protected_def)
       (simp add: example_config_def)
qed

lemma example_onFileDeleted:
  assumes "storage w ''acc1'' = Some cfg" "cfg_serverUrl cfg = ''https://cloud.example.com''"
    "apiCache w ''acc1'' = Some example_session" "uploadedFiles w fid = Some info"
  shows "onFileDeleted example_platform ''acc1'' fid w
     = (Inr (), w\<lparr>sent := sent w @
           [PingReq ''https://cloud.example.com'' (Some ''tok123''),
            DeleteFileReq ''https://cloud.example.com'' (Some ''tok123'') (rec_repoId info)
              (sanitizePath (filePath info))],
          uploadedFiles := (uploadedFiles w)(fid := None)\<rparr>)"
  using assms(4)
  by (simp add: onFileDeleted_def io_bind_def io_catch_def io_return_def onFileUploadAbort_def
        example_session_acquired [OF assms(1-3)] example_deleteFile)

lemma foreign_world_fields:
  "storage foreign_world ''acc1'' = Some (example_config\<lparr>repoId := ''lib2''\<rparr>)"
  "apiCache foreign_world ''acc1'' = Some example_session"
  "sent foreign_world = []" "uploadedFiles foreign_world = Map.empty"
  "cfg_serverUrl (example_config\<lparr>repoId := ''lib2''\<rparr>) = ''https://cloud.example.com''"
  "repoId (example_config\<lparr>repoId := ''lib2''\<rparr>) = ''lib2''"
  "target_dir (example_config\<lparr>repoId := ''lib2''\<rparr>) = ''/Thunderbird-Attachments''"
  by (simp_all add: foreign_world_def cached_world_def example_world_def example_config_def
        target_dir_def sanitizePath_def startsWith_slash_def)

lemma foreign_steps:
  "getAuthenticatedAPI example_platform ''acc1'' foreign_world
     = (Inr example_session,
        foreign_world\<lparr>sent := [PingReq ''https://cloud.example.com'' (Some ''tok123'')]\<rparr>)"
  "storage (foreign_world\<lparr>sent := [PingReq ''https://cloud.example.com'' (Some ''tok123'')]\<rparr>) ''acc1''
     = Some (example_config\<lparr>repoId := ''lib2''\<rparr>)"
  "ensureDirectory example_platform example_session (repoId (example_config\<lparr>repoId := ''lib2''\<rparr>))
       (target_dir (example_config\<lparr>repoId := ''lib2''\<rparr>))
       (foreign_world\<lparr>sent := [PingReq ''https://cloud.example.com'' (Some ''tok123'')]\<rparr>)
     = (Inr (),
        foreign_world\<lparr>sent := [PingReq ''https://cloud.example.com'' (Some ''tok123''),
           MkdirReq ''https://cloud.example.com'' (Some ''tok123'') ''lib2''
             ''/Thunderbird-Attachments'']\<rparr>)"
  "getUploadLink example_platform example_session (repoId (example_config\<lparr>repoId := ''lib2''\<rparr>))
       (target_dir (example_config\<lparr>repoId := ''lib2''\<rparr>))
       (foreign_world\<lparr>sent := [PingReq ''https://cloud.example.com'' (Some ''tok123''),
           MkdirReq ''https://cloud.example.com'' (Some ''tok123'') ''lib2''
             ''/Thunderbird-Attachments'']\<rparr>)
     = (Inl (SeafileError UPLOAD_LINK_UNTRUSTED),
        foreign_world\<lparr>sent := [PingReq ''https://cloud.example.com'' (Some ''tok123''),
           MkdirReq ''https://cloud.example.com'' (Some ''tok123'') ''lib2''
             ''/Thunderbird-Attachments'',
           UploadLinkReq ''https://cloud.example.com'' (Some ''tok123'') ''lib2''
             ''/Thunderbird-Attachments'']\<rparr>)"
  using example_session_acquired [OF foreign_world_fields(1) foreign_world_fields(5)
      foreign_world_fields(2)]
  by (simp_all add: foreign_world_fields example_ensureDirectory example_getUploadLink_foreign
        sanitize_examples)

lemma example_upload:
  "onFileUpload example_platform ''acc1'' 7 example_file cached_world
     = (Inr (UploadDone (Some (JStr ''https://cloud.example.com/f/sl1/''))
              \<lparr> service_url = ''https://cloud.example.com'', download_expiry_date = Some 7,
                download_password_protected = False \<rparr>),
        cached_world\<lparr>sent :=
             [PingReq ''https://cloud.example.com'' (Some ''tok123''),
              MkdirReq ''https://cloud.example.com'' (Some ''tok123'') ''lib1''
                ''/Thunderbird-Attachments'',
              UploadLinkReq ''https://cloud.example.com'' (Some ''tok123'') ''lib1''
                ''/Thunderbird-Attachments'',
              UploadReq ''https://cloud.example.com/seafhttp/upload-api/abc?ret-json=1''
                (Some ''tok123'') ''/Thunderbird-Attachments'' example_file None,
              ShareLinkReq ''https://cloud.example.com'' (Some ''tok123'')
                \<lparr> repo_id = ''lib1'', path = ''/Thunderbird-Attachments/report.pdf'',
                  password = None, expire_days = Some 7 \<rparr>],
           lm_calls := [SearchLogins ''https://cloud.example.com'' REALMS_SHARE_PW],
           uploadedFiles := [7 \<mapsto>
              \<lparr> rec_repoId = ''lib1'', filePath = ''/Thunderbird-Attachments/report.pdf'',
                accountId = ''acc1'', shareLinkToken = Some (JStr ''sl1'') \<rparr>]\<rparr>)"
proof -
  let ?w3 = "cached_world\<lparr>sent :=
            [PingReq ''https://cloud.example.com'' (Some ''tok123''),
             MkdirReq ''https://cloud.example.com'' (Some ''tok123'') ''lib1'' ''/Thunderbird-Attachments'',
             UploadLinkReq ''https://cloud.example.com'' (Some ''tok123'') ''lib1''
               ''/Thunderbird-Attachments'']\<rparr>"
  have l: "logins ?w3 = [example_password_login]"
    by (simp add: cached_world_fields)
  from example_transfer [OF l, of 7] show ?thesis
    by (simp add: onFileUpload_steps example_prepare cached_world_fields)
qed

section \<open>The upload ticket is checked against the server\<close>

lemma getUploadLink_result:
  assumes "network P (sent w) (UploadLinkReq (serverUrl a) (token a) repo (sanitizePath dir)) = Response r"
    and "ok r" and "body r = Some (JStr link)"
    and "URL P link = Some uploadUrl" and "URL P (serverUrl a) = Some server"
  shows "getUploadLink P a repo dir w =
     (if hostname uploadUrl \<noteq> hostname server then Inl (SeafileError UPLOAD_LINK_UNTRUSTED)
      else Inr link,
      w\<lparr>sent := sent w @ [UploadLinkReq (serverUrl a) (token a) repo (sanitizePath dir)]\<rparr>)"
  using assms
  by (simp add: getUploadLink_def Let_def io_bind_def fetch_def response_json_def io_return_def
        io_throw_def)

lemma onFileUpload_ticket_failure:
  assumes "getAuthenticatedAPI P account w = (Inr a, w1)" and "storage w1 account = Some cfg"
    and "ensureDirectory P a (repoId cfg) (target_dir cfg) w1 = (Inr u, w2)"
    and "getUploadLink P a (repoId cfg) (target_dir cfg) w2 = (Inl e, w3)"
  shows "onFileUpload P account fid f w = (Inr (UploadError e), w3)"
    and "upload_requests w3 = upload_requests w" and "uploadedFiles w3 = uploadedFiles w"
proof -
  show "onFileUpload P account fid f w = (Inr (UploadError e), w3)"
    using assms by (simp add: onFileUpload_steps upload_prepare_steps)
  from keeps_uploadsD [OF keeps_getAuthenticatedAPI assms(1)]
    keeps_uploadsD [OF keeps_ensureDirectory assms(3)]
    keeps_uploadsD [OF keeps_getUploadLink assms(4)]
  show "upload_requests w3 = upload_requests w" and "uploadedFiles w3 = uploadedFiles w"
    by simp_all
qed

text \<open>
  C4. For every upload-ticket request that is answered with a URL string: if the host name
  of that URL differs from the host name of the session's server URL, \<^verbatim>\<open>getUploadLink\<close>
  throws \<open>UPLOAD_LINK_UNTRUSTED\<close>; if the two host names are equal, it returns the URL
  unchanged. And whenever \<^verbatim>\<open>getUploadLink\<close> throws inside the upload listener, the
  listener returns that error in the world the ticket request left: no upload request has
  been sent since the listener started, and the upload table is as it was.
\<close>

theorem getUploadLink_host_check:
  "(\<forall>r link uploadUrl server.
       network P (sent w) (UploadLinkReq (serverUrl a) (token a) repo (sanitizePath dir)) = Response r
       \<and> ok r \<and> body r = Some (JStr link)
       \<and> URL P link = Some uploadUrl \<and> URL P (serverUrl a) = Some server \<longrightarrow>
       (hostname uploadUrl \<noteq> hostname server \<longrightarrow>
          getUploadLink P a repo dir w
            = (Inl (SeafileError UPLOAD_LINK_UNTRUSTED),
               w\<lparr>sent := sent w @ [UploadLinkReq (serverUrl a) (token a) repo (sanitizePath dir)]\<rparr>))
       \<and> (hostname uploadUrl = hostname server \<longrightarrow>
          getUploadLink P a repo dir w
            = (Inr link,
               w\<lparr>sent := sent w @ [UploadLinkReq (serverUrl a) (token a) repo (sanitizePath dir)]\<rparr>)))
   \<and> (\<forall>s s1 s2 s3 session cfg u e.
       getAuthenticatedAPI P account s = (Inr session, s1) \<and> storage s1 account = Some cfg
       \<and> ensureDirectory P session (repoId cfg) (target_dir cfg) s1 = (Inr u, s2)
       \<and> getUploadLink P session (repoId cfg) (target_dir cfg) s2 = (Inl e, s3) \<longrightarrow>
       onFileUpload P account fid f s = (Inr (UploadError e), s3)
       \<and> upload_requests s3 = upload_requests s
       \<and> uploadedFiles s3 = uploadedFiles s)"
proof (intro conjI allI impI)
  fix r link uploadUrl server
  assume h: "network P (sent w) (UploadLinkReq (serverUrl a) (token a) repo (sanitizePath dir)) = Response r
       \<and> ok r \<and> body r = Some (JStr link)
       \<and> URL P link = Some uploadUrl \<and> URL P (serverUrl a) = Some server"
  then have g1: "network P (sent w) (UploadLinkReq (serverUrl a) (token a) repo (sanitizePath dir)) = Response r"
    and g2: "ok r" and g3: "body r = Some (JStr link)"
    and g4: "URL P link = Some uploadUrl" and g5: "URL P (serverUrl a) = Some server"
    by simp_all
  have g: "getUploadLink P a repo dir w =
     (if hostname uploadUrl \<noteq> hostname server then Inl (SeafileError UPLOAD_LINK_UNTRUSTED)
      else Inr link,
      w\<lparr>sent := sent w @ [UploadLinkReq (serverUrl a) (token a) repo (sanitizePath dir)]\<rparr>)"
    by (rule getUploadLink_result [OF g1 g2 g3 g4 g5])
  {
    assume "hostname uploadUrl \<noteq> hostname server"
    with g show "getUploadLink P a repo dir w
            = (Inl (SeafileError UPLOAD_LINK_UNTRUSTED),
               w\<lparr>sent := sent w @ [UploadLinkReq (serverUrl a) (token a) repo (sanitizePath dir)]\<rparr>)"
      by simp
  next
    assume "hostname uploadUrl = hostname server"
    with g show "getUploadLink P a repo dir w
            = (Inr link,
               w\<lparr>sent := sent w @ [UploadLinkReq (serverUrl a) (token a) repo (sanitizePath dir)]\<rparr>)"
      by simp
  }
next
  fix s s1 s2 s3 session cfg u e
  assume h: "getAuthenticatedAPI P account s = (Inr session, s1) \<and> storage s1 account = Some cfg
       \<and> ensureDirectory P session (repoId cfg) (target_dir cfg) s1 = (Inr u, s2)
       \<and> getUploadLink P session (repoId cfg) (target_dir cfg) s2 = (Inl e, s3)"
  then have h1: "getAuthenticatedAPI P account s = (Inr session, s1)"
    and h2: "storage s1 account = Some cfg"
    and h3: "ensureDirectory P session (repoId cfg) (target_dir cfg) s1 = (Inr u, s2)"
    and h4: "getUploadLink P session (repoId cfg) (target_dir cfg) s2 = (Inl e, s3)"
    by simp_all
  from onFileUpload_ticket_failure [OF h1 h2 h3 h4]
  show "onFileUpload P account fid f s = (Inr (UploadError e), s3)"
    and "upload_requests s3 = upload_requests s" and "uploadedFiles s3 = uploadedFiles s"
    by simp_all
qed

theorem getUploadLink_host_check_witness:
  "getUploadLink example_platform example_session ''lib2'' ''/Thunderbird-Attachments'' cached_world
     = (Inl (SeafileError UPLOAD_LINK_UNTRUSTED),
        cached_world\<lparr>sent := [UploadLinkReq ''https://cloud.example.com'' (Some ''tok123'')
                                   ''lib2'' ''/Thunderbird-Attachments'']\<rparr>)
   \<and> getUploadLink example_platform example_session ''lib1'' ''/Thunderbird-Attachments'' cached_world
     = (Inr ''https://cloud.example.com/seafhttp/upload-api/abc'',
        cached_world\<lparr>sent := [UploadLinkReq ''https://cloud.example.com'' (Some ''tok123'')
                                   ''lib1'' ''/Thunderbird-Attachments'']\<rparr>)
   \<and> onFileUpload example_platform ''acc1'' 7 example_file foreign_world
     = (Inr (UploadError (SeafileError UPLOAD_LINK_UNTRUSTED)),
        foreign_world\<lparr>sent := [PingReq ''https://cloud.example.com'' (Some ''tok123''),
           MkdirReq ''https://cloud.example.com'' (Some ''tok123'') ''lib2''
             ''/Thunderbird-Attachments'',
           UploadLinkReq ''https://cloud.example.com'' (Some ''tok123'') ''lib2''
             ''/Thunderbird-Attachments'']\<rparr>)"
proof -
  note T = getUploadLink_host_check
  let ?cloud = "\<lparr> protocol = ''https:'', hostname = ''cloud.example.com'',
                  origin = ''https://cloud.example.com'' \<rparr>"
  let ?files = "\<lparr> protocol = ''https:'', hostname = ''files.example.net'',
                  origin = ''https://files.example.net'' \<rparr>"
  have h2: "network example_platform (sent cached_world)
        (UploadLinkReq (serverUrl example_session) (token example_session) ''lib2''
           (sanitizePath ''/Thunderbird-Attachments''))
       = Response \<lparr> status = 200, body = Some (JStr ''https://files.example.net/upload/abc'') \<rparr>
     \<and> ok \<lparr> status = 200, body = Some (JStr ''https://files.example.net/upload/abc'') \<rparr>
     \<and> body \<lparr> status = 200, body = Some (JStr ''https://files.example.net/upload/abc'') \<rparr>
         = Some (JStr ''https://files.example.net/upload/abc'')
     \<and> URL example_platform ''https://files.example.net/upload/abc'' = Some ?files
     \<and> URL example_platform (serverUrl example_session) = Some ?cloud"
    by (simp add: example_platform_def example_network_def ok_def example_URL_def
          example_session_def)
  have h1: "network example_platform (sent cached_world)
        (UploadLinkReq (serverUrl example_session) (token example_session) ''lib1''
           (sanitizePath ''/Thunderbird-Attachments''))
       = Response \<lparr> status = 200,
           body = Some (JStr ''https://cloud.example.com/seafhttp/upload-api/abc'') \<rparr>
     \<and> ok \<lparr> status = 200, body = Some (JStr ''https://cloud.example.com/seafhttp/upload-api/abc'') \<rparr>
     \<and> body \<lparr> status = 200, body = Some (JStr ''https://cloud.example.com/seafhttp/upload-api/abc'') \<rparr>
         = Some (JStr ''https://cloud.example.com/seafhttp/upload-api/abc'')
     \<and> URL example_platform ''https://cloud.example.com/seafhttp/upload-api/abc'' = Some ?cloud
     \<and> URL example_platform (serverUrl example_session) = Some ?cloud"
    by (simp add: example_platform_def example_network_def ok_def example_URL_def
          example_session_def)
  have a: "getUploadLink example_platform example_session ''lib2'' ''/Thunderbird-Attachments'' cached_world
     = (Inl (SeafileError UPLOAD_LINK_UNTRUSTED),
        cached_world\<lparr>sent := [UploadLinkReq ''https://cloud.example.com'' (Some ''tok123'')
                                   ''lib2'' ''/Thunderbird-Attachments'']\<rparr>)"
    using T [THEN conjunct1, rule_format, OF h2, THEN conjunct1]
    by (simp add: cached_world_fields sanitize_examples example_session_def)
  have b: "getUploadLink example_platform example_session ''lib1'' ''/Thunderbird-Attachments'' cached_world
     = (Inr ''https://cloud.example.com/seafhttp/upload-api/abc'',
        cached_world\<lparr>sent := [UploadLinkReq ''https://cloud.example.com'' (Some ''tok123'')
                                   ''lib1'' ''/Thunderbird-Attachments'']\<rparr>)"
    using T [THEN conjunct1, rule_format, OF h1, THEN conjunct2]
    by (simp add: cached_world_fields sanitize_examples example_session_def)
  have h3: "getAuthenticatedAPI example_platform ''acc1'' foreign_world
        = (Inr example_session,
           foreign_world\<lparr>sent := [PingReq ''https://cloud.example.com'' (Some ''tok123'')]\<rparr>)
     \<and> storage (foreign_world\<lparr>sent := [PingReq ''https://cloud.example.com'' (Some ''tok123'')]\<rparr>)
          ''acc1'' = Some (example_config\<lparr>repoId := ''lib2''\<rparr>)
     \<and> ensureDirectory example_platform example_session (repoId (example_config\<lparr>repoId := ''lib2''\<rparr>))
          (target_dir (example_config\<lparr>repoId := ''lib2''\<rparr>))
          (foreign_world\<lparr>sent := [PingReq ''https://cloud.example.com'' (Some ''tok123'')]\<rparr>)
        = (Inr (),
           foreign_world\<lparr>sent := [PingReq ''https://cloud.example.com'' (Some ''tok123''),
             MkdirReq ''https://cloud.example.com'' (Some ''tok123'') ''lib2''
               ''/Thunderbird-Attachments'']\<rparr>)
     \<and> getUploadLink example_platform example_session (repoId (example_config\<lparr>repoId := ''lib2''\<rparr>))
          (target_dir (example_config\<lparr>repoId := ''lib2''\<rparr>))
          (foreign_world\<lparr>sent := [PingReq ''https://cloud.example.com'' (Some ''tok123''),
             MkdirReq ''https://cloud.example.com'' (Some ''tok123'') ''lib2''
               ''/Thunderbird-Attachments'']\<rparr>)
        = (Inl (SeafileError UPLOAD_LINK_UNTRUSTED),
           foreign_world\<lparr>sent := [PingReq ''https://cloud.example.com'' (Some ''tok123''),
             MkdirReq ''https://cloud.example.com'' (Some ''tok123'') ''lib2''
               ''/Thunderbird-Attachments'',
             UploadLinkReq ''https://cloud.example.com'' (Some ''tok123'') ''lib2''
               ''/Thunderbird-Attachments'']\<rparr>)"
    using foreign_steps by simp
  have c: "onFileUpload example_platform ''acc1'' 7 example_file foreign_world
     = (Inr (UploadError (SeafileError UPLOAD_LINK_UNTRUSTED)),
        foreign_world\<lparr>sent := [PingReq ''https://cloud.example.com'' (Some ''tok123''),
           MkdirReq ''https://cloud.example.com'' (Some ''tok123'') ''lib2''
             ''/Thunderbird-Attachments'',
           UploadLinkReq ''https://cloud.example.com'' (Some ''tok123'') ''lib2''
             ''/Thunderbird-Attachments'']\<rparr>)"
    using T [THEN conjunct2, rule_format, OF h3, THEN conjunct1] .
  from a b c show ?thesis by simp
qed

section \<open>An upload registers its record only at the end\<close>

lemma onFileUpload_never_throws: "\<exists>r w'. onFileUpload P account fid f w = (Inr r, w')"
  by (auto simp: onFileUpload_steps split: prod.splits sum.splits)

lemma onFileUpload_error_frame:
  assumes "onFileUpload P account fid f w = (Inr (UploadError e), w')"
  shows "uploadedFiles w' = uploadedFiles w"
proof (cases "upload_prepare P account w")
  case (Pair r w3)
  note k = keeps_uploadsD [OF keeps_upload_prepare Pair]
  show ?thesis
  proof (cases r)
    case (Inl e')
    with assms Pair k show ?thesis by (simp add: onFileUpload_steps)
  next
    case (Inr ctx)
    obtain a cfg uploadLink where ctx: "ctx = (a, cfg, uploadLink)" by (cases ctx) auto
    show ?thesis
    proof (cases "upload_transfer P account fid f (a, cfg, uploadLink) w3")
      case (Pair r' w'')
      show ?thesis
      proof (cases r')
        case (Inl e')
        with assms \<open>upload_prepare P account w = (r, w3)\<close> Inr ctx Pair
        have "w'' = w'" by (simp add: onFileUpload_steps)
        with upload_transfer_throws Pair Inl k show ?thesis by metis
      next
        case (Inr res)
        with upload_transfer_returns Pair obtain link info where "res = UploadDone link info"
          by blast
        with assms \<open>upload_prepare P account w = (r, w3)\<close> \<open>r = Inr ctx\<close> ctx Pair Inr
        show ?thesis by (simp add: onFileUpload_steps)
      qed
    qed
  qed
qed

lemma onFileUpload_done:
  assumes "onFileUpload P account fid f w = (Inr (UploadDone link info), w')"
  shows "\<exists>a cfg w1 w2 uploadLink w3 j w4 srv sharePw w5 shareLink w6 tok.
           getAuthenticatedAPI P account w = (Inr a, w1) \<and> storage w1 account = Some cfg
         \<and> ensureDirectory P a (repoId cfg) (target_dir cfg) w1 = (Inr (), w2)
         \<and> getUploadLink P a (repoId cfg) (target_dir cfg) w2 = (Inr uploadLink, w3)
         \<and> uploadFile P a uploadLink (target_dir cfg) f None w3 = (Inr j, w4)
         \<and> validateServerUrl P (cfg_serverUrl cfg) = Inr srv
         \<and> getSecret P srv REALMS_SHARE_PW w4 = (Inr sharePw, w5)
         \<and> createShareLink P a (repoId cfg) (file_path cfg f) (share_options cfg sharePw) w5
             = (Inr shareLink, w6)
         \<and> get_prop shareLink ''token'' = Inr tok
         \<and> w' = w6\<lparr>uploadedFiles := (uploadedFiles w6)(fid \<mapsto>
                   \<lparr> rec_repoId = repoId cfg, filePath = file_path cfg f,
                     accountId = account, shareLinkToken = tok \<rparr>)\<rparr>"
proof -
  from assms obtain a cfg uploadLink w3 where
    p: "upload_prepare P account w = (Inr (a, cfg, uploadLink), w3)"
    and t: "upload_transfer P account fid f (a, cfg, uploadLink) w3 = (Inr (UploadDone link info), w')"
    by (auto simp: onFileUpload_steps split: prod.splits sum.splits)
  from p obtain w1 w2 where
    "getAuthenticatedAPI P account w = (Inr a, w1)" "storage w1 account = Some cfg"
    "ensureDirectory P a (repoId cfg) (target_dir cfg) w1 = (Inr (), w2)"
    "getUploadLink P a (repoId cfg) (target_dir cfg) w2 = (Inr uploadLink, w3)"
    by (auto simp: upload_prepare_steps split: prod.splits sum.splits option.splits)
  with upload_transfer_returns [OF t] show ?thesis by blast
qed

text \<open>
  C5. For every upload event the listener returns a result and never throws; the result
  is either an error or the share link with its template information. When the result is
  an error, the upload table is as it was before the event. When the result is the share
  link, every step has succeeded (session, directory, ticket, upload, share link) and the
  record has been registered after the share link was created. And when a step fails
  (session acquisition, directory creation, ticket acquisition, byte upload or share-link
  creation, each after the steps before it have succeeded), the result is the error of
  that step, in the world that step left.
\<close>

theorem onFileUpload_all_or_nothing:
  "(\<exists>r w'. onFileUpload P account fid f w = (Inr r, w'))
   \<and> (\<forall>e w'. onFileUpload P account fid f w = (Inr (UploadError e), w') \<longrightarrow>
         uploadedFiles w' = uploadedFiles w)
   \<and> (\<forall>link info w'. onFileUpload P account fid f w = (Inr (UploadDone link info), w') \<longrightarrow>
         (\<exists>a cfg w1 w2 uploadLink w3 j w4 srv sharePw w5 shareLink w6 tok.
             getAuthenticatedAPI P account w = (Inr a, w1) \<and> storage w1 account = Some cfg
           \<and> ensureDirectory P a (repoId cfg) (target_dir cfg) w1 = (Inr (), w2)
           \<and> getUploadLink P a (repoId cfg) (target_dir cfg) w2 = (Inr uploadLink, w3)
           \<and> uploadFile P a uploadLink (target_dir cfg) f None w3 = (Inr j, w4)
           \<and> validateServerUrl P (cfg_serverUrl cfg) = Inr srv
           \<and> getSecret P srv REALMS_SHARE_PW w4 = (Inr sharePw, w5)
           \<and> createShareLink P a (repoId cfg) (file_path cfg f) (share_options cfg sharePw) w5
               = (Inr shareLink, w6)
           \<and> get_prop shareLink ''token'' = Inr tok
           \<and> w' = w6\<lparr>uploadedFiles := (uploadedFiles w6)(fid \<mapsto>
                     \<lparr> rec_repoId = repoId cfg, filePath = file_path cfg f,
                       accountId = account, shareLinkToken = tok \<rparr>)\<rparr>))
   \<and> (\<forall>e w1. getAuthenticatedAPI P account w = (Inl e, w1) \<longrightarrow>
         onFileUpload P account fid f w = (Inr (UploadError e), w1))
   \<and> (\<forall>a w1 cfg. getAuthenticatedAPI P account w = (Inr a, w1) \<and> storage w1 account = Some cfg \<longrightarrow>
         (\<forall>e w2. ensureDirectory P a (repoId cfg) (target_dir cfg) w1 = (Inl e, w2) \<longrightarrow>
            onFileUpload P account fid f w = (Inr (UploadError e), w2))
       \<and> (\<forall>u w2. ensureDirectory P a (repoId cfg) (target_dir cfg) w1 = (Inr u, w2) \<longrightarrow>
            (\<forall>e w3. getUploadLink P a (repoId cfg) (target_dir cfg) w2 = (Inl e, w3) \<longrightarrow>
               onFileUpload P account fid f w = (Inr (UploadError e), w3))
          \<and> (\<forall>uploadLink w3. getUploadLink P a (repoId cfg) (target_dir cfg) w2 = (Inr uploadLink, w3) \<longrightarrow>
               (\<forall>e w4. uploadFile P a uploadLink (target_dir cfg) f None w3 = (Inl e, w4) \<longrightarrow>
                  onFileUpload P account fid f w = (Inr (UploadError e), w4))
             \<and> (\<forall>j w4 srv sharePw w5 e w6.
                  uploadFile P a uploadLink (target_dir cfg) f None w3 = (Inr j, w4)
                  \<and> validateServerUrl P (cfg_serverUrl cfg) = Inr srv
                  \<and> getSecret P srv REALMS_SHARE_PW w4 = (Inr sharePw, w5)
                  \<and> createShareLink P a (repoId cfg) (file_path cfg f) (share_options cfg sharePw) w5
                      = (Inl e, w6) \<longrightarrow>
                  onFileUpload P account fid f w = (Inr (UploadError e), w6)))))"
proof -
  have steps: "(\<forall>e w1. getAuthenticatedAPI P account w = (Inl e, w1) \<longrightarrow>
         onFileUpload P account fid f w = (Inr (UploadError e), w1))
   \<and> (\<forall>a w1 cfg. getAuthenticatedAPI P account w = (Inr a, w1) \<and> storage w1 account = Some cfg \<longrightarrow>
         (\<forall>e w2. ensureDirectory P a (repoId cfg) (target_dir cfg) w1 = (Inl e, w2) \<longrightarrow>
            onFileUpload P account fid f w = (Inr (UploadError e), w2))
       \<and> (\<forall>u w2. ensureDirectory P a (repoId cfg) (target_dir cfg) w1 = (Inr u, w2) \<longrightarrow>
            (\<forall>e w3. getUploadLink P a (repoId cfg) (target_dir cfg) w2 = (Inl e, w3) \<longrightarrow>
               onFileUpload P account fid f w = (Inr (UploadError e), w3))
          \<and> (\<forall>uploadLink w3. getUploadLink P a (repoId cfg) (target_dir cfg) w2 = (Inr uploadLink, w3) \<longrightarrow>
               (\<forall>e w4. uploadFile P a uploadLink (target_dir cfg) f None w3 = (Inl e, w4) \<longrightarrow>
                  onFileUpload P account fid f w = (Inr (UploadError e), w4))
             \<and> (\<forall>j w4 srv sharePw w5 e w6.
                  uploadFile P a uploadLink (target_dir cfg) f None w3 = (Inr j, w4)
                  \<and> validateServerUrl P (cfg_serverUrl cfg) = Inr srv
                  \<and> getSecret P srv REALMS_SHARE_PW w4 = (Inr sharePw, w5)
                  \<and> createShareLink P a (repoId cfg) (file_path cfg f) (share_options cfg sharePw) w5
                      = (Inl e, w6) \<longrightarrow>
                  onFileUpload P account fid f w = (Inr (UploadError e), w6)))))"
    by (simp add: onFileUpload_steps upload_prepare_steps upload_transfer_steps)
  from onFileUpload_never_throws [of P account fid f w] onFileUpload_error_frame [of P account fid f w]
    onFileUpload_done [of P account fid f w] steps
  show ?thesis by blast
qed

theorem onFileUpload_all_or_nothing_witness:
  "onFileUpload example_platform ''nobody'' 7 example_file cached_world
     = (Inr (UploadError (SeafileError NO_CONFIG)), cached_world)
   \<and> onFileUpload example_platform ''acc1'' 7 example_file foreign_world
     = (Inr (UploadError (SeafileError UPLOAD_LINK_UNTRUSTED)),
        foreign_world\<lparr>sent := [PingReq ''https://cloud.example.com'' (Some ''tok123''),
           MkdirReq ''https://cloud.example.com'' (Some ''tok123'') ''lib2''
             ''/Thunderbird-Attachments'',
           UploadLinkReq ''https://cloud.example.com'' (Some ''tok123'') ''lib2''
             ''/Thunderbird-Attachments'']\<rparr>)
   \<and> (\<exists>a cfg w1 w2 uploadLink w3 j w4 srv sharePw w5 shareLink w6.
         getAuthenticatedAPI example_platform ''acc1'' cached_world = (Inr a, w1)
       \<and> storage w1 ''acc1'' = Some cfg
       \<and> ensureDirectory example_platform a (repoId cfg) (target_dir cfg) w1 = (Inr (), w2)
       \<and> getUploadLink example_platform a (repoId cfg) (target_dir cfg) w2 = (Inr uploadLink, w3)
       \<and> uploadFile example_platform a uploadLink (target_dir cfg) example_file None w3 = (Inr j, w4)
       \<and> validateServerUrl example_platform (cfg_serverUrl cfg) = Inr srv
       \<and> getSecret example_platform srv REALMS_SHARE_PW w4 = (Inr sharePw, w5)
       \<and> createShareLink example_platform a (repoId cfg) (file_path cfg example_file)
            (share_options cfg sharePw) w5 = (Inr shareLink, w6))"
proof -
  note T = onFileUpload_all_or_nothing
  have n: "getAuthenticatedAPI example_platform ''nobody'' cached_world
             = (Inl (SeafileError NO_CONFIG), cached_world)"
    by (simp add: getAuthenticatedAPI_def io_bind_def loadAccountConfig_def io_throw_def
          cached_world_def example_world_def)
  have a: "onFileUpload example_platform ''nobody'' 7 example_file cached_world
     = (Inr (UploadError (SeafileError NO_CONFIG)), cached_world)"
    using T [where P = example_platform and account = "''nobody''" and w = cached_world,
        THEN conjunct2, THEN conjunct2, THEN conjunct2, THEN conjunct1, rule_format, OF n] .
  have h: "getAuthenticatedAPI example_platform ''acc1'' foreign_world
        = (Inr example_session,
           foreign_world\<lparr>sent := [PingReq ''https://cloud.example.com'' (Some ''tok123'')]\<rparr>)
     \<and> storage (foreign_world\<lparr>sent := [PingReq ''https://cloud.example.com'' (Some ''tok123'')]\<rparr>)
          ''acc1'' = Some (example_config\<lparr>repoId := ''lib2''\<rparr>)"
    using foreign_steps(1,2) by simp
  have b: "onFileUpload example_platform ''acc1'' 7 example_file foreign_world
     = (Inr (UploadError (SeafileError UPLOAD_LINK_UNTRUSTED)),
        foreign_world\<lparr>sent := [PingReq ''https://cloud.example.com'' (Some ''tok123''),
           MkdirReq ''https://cloud.example.com'' (Some ''tok123'') ''lib2''
             ''/Thunderbird-Attachments'',
           UploadLinkReq ''https://cloud.example.com'' (Some ''tok123'') ''lib2''
             ''/Thunderbird-Attachments'']\<rparr>)"
    using T [where P = example_platform and account = "''acc1''" and w = foreign_world,
        THEN conjunct2, THEN conjunct2, THEN conjunct2, THEN conjunct2, rule_format, OF h,
        THEN conjunct2, rule_format, OF foreign_steps(3), THEN conjunct1, rule_format,
        OF foreign_steps(4)] .
  have c: "\<exists>a cfg w1 w2 uploadLink w3 j w4 srv sharePw w5 shareLink w6.
         getAuthenticatedAPI example_platform ''acc1'' cached_world = (Inr a, w1)
       \<and> storage w1 ''acc1'' = Some cfg
       \<and> ensureDirectory example_platform a (repoId cfg) (target_dir cfg) w1 = (Inr (), w2)
       \<and> getUploadLink example_platform a (repoId cfg) (target_dir cfg) w2 = (Inr uploadLink, w3)
       \<and> uploadFile example_platform a uploadLink (target_dir cfg) example_file None w3 = (Inr j, w4)
       \<and> validateServerUrl example_platform (cfg_serverUrl cfg) = Inr srv
       \<and> getSecret example_platform srv REALMS_SHARE_PW w4 = (Inr sharePw, w5)
       \<and> createShareLink example_platform a (repoId cfg) (file_path cfg example_file)
            (share_options cfg sharePw) w5 = (Inr shareLink, w6)"
    using T [where P = example_platform and account = "''acc1''" and w = cached_world
        and fid = 7 and f = example_file,
        THEN conjunct2, THEN conjunct2, THEN conjunct1, rule_format, OF example_upload]
    by blast
  from a b c show ?thesis by blast
qed

section \<open>An abort while the upload is in flight\<close>

text \<open>
  C3, on the code. The account of the example has a cached session; the upload of
  \<^verbatim>\<open>report.pdf\<close> with file id 7 gets its upload ticket, then the abort event for file id 7
  arrives, then the listener goes on. The upload request is sent without an abort signal
  (nothing is cancelled), the share link is created, and the record for file id 7 is
  registered after the abort; a later delete event for file id 7 is no no-op: it probes the
  session and sends the request that deletes the remote file.
\<close>

theorem abort_after_ticket_still_registers:
  "\<exists>w'. upload_aborted_after_ticket example_platform ''acc1'' 7 example_file cached_world
       = (Inr (UploadDone (Some (JStr ''https://cloud.example.com/f/sl1/''))
                \<lparr> service_url = ''https://cloud.example.com'', download_expiry_date = Some 7,
                  download_password_protected = False \<rparr>), w')
     \<and> upload_requests w'
         = [UploadReq ''https://cloud.example.com/seafhttp/upload-api/abc?ret-json=1''
              (Some ''tok123'') ''/Thunderbird-Attachments'' example_file None]
     \<and> uploadedFiles w' 7
         = Some \<lparr> rec_repoId = ''lib1'', filePath = ''/Thunderbird-Attachments/report.pdf'',
                  accountId = ''acc1'', shareLinkToken = Some (JStr ''sl1'') \<rparr>
     \<and> sent (snd (onFileDeleted example_platform ''acc1'' 7 w'))
         = sent w' @ [PingReq ''https://cloud.example.com'' (Some ''tok123''),
                      DeleteFileReq ''https://cloud.example.com'' (Some ''tok123'') ''lib1''
                        ''/Thunderbird-Attachments/report.pdf'']"
proof -
  let ?w3 = "cached_world\<lparr>sent :=
            [PingReq ''https://cloud.example.com'' (Some ''tok123''),
             MkdirReq ''https://cloud.example.com'' (Some ''tok123'') ''lib1'' ''/Thunderbird-Attachments'',
             UploadLinkReq ''https://cloud.example.com'' (Some ''tok123'') ''lib1''
               ''/Thunderbird-Attachments'']\<rparr>"
  let ?wa = "?w3\<lparr>uploadedFiles := (uploadedFiles ?w3)(7 := None)\<rparr>"
  have l: "logins ?wa = [example_password_login]"
    by (simp add: cached_world_fields)
  note tr = example_transfer [OF l, of 7, simplified]
  have run: "upload_aborted_after_ticket example_platform ''acc1'' 7 example_file cached_world
      = (Inr (UploadDone (Some (JStr ''https://cloud.example.com/f/sl1/''))
                \<lparr> service_url = ''https://cloud.example.com'', download_expiry_date = Some 7,
                  download_password_protected = False \<rparr>),
         ?wa\<lparr>sent := sent ?wa @
             [UploadReq ''https://cloud.example.com/seafhttp/upload-api/abc?ret-json=1''
                (Some ''tok123'') ''/Thunderbird-Attachments'' example_file None,
              ShareLinkReq ''https://cloud.example.com'' (Some ''tok123'')
                \<lparr> repo_id = ''lib1'', path = ''/Thunderbird-Attachments/report.pdf'',
                  password = None, expire_days = Some 7 \<rparr>],
           lm_calls := lm_calls ?wa @ [SearchLogins ''https://cloud.example.com'' REALMS_SHARE_PW],
           uploadedFiles := (uploadedFiles ?wa)(7 \<mapsto>
              \<lparr> rec_repoId = ''lib1'', filePath = ''/Thunderbird-Attachments/report.pdf'',
                accountId = ''acc1'', shareLinkToken = Some (JStr ''sl1'') \<rparr>)\<rparr>)"
    (is "_ = (_, ?w')")
    by (simp add: upload_aborted_after_ticket_def io_catch_def io_bind_def example_prepare
          onFileUploadAbort_def tr)
  have s: "storage ?w' ''acc1'' = Some example_config" "apiCache ?w' ''acc1'' = Some example_session"
    "uploadedFiles ?w' 7 = Some \<lparr> rec_repoId = ''lib1'', filePath = ''/Thunderbird-Attachments/report.pdf'',
                accountId = ''acc1'', shareLinkToken = Some (JStr ''sl1'') \<rparr>"
    by (simp_all add: cached_world_fields)
  have del: "sent (snd (onFileDeleted example_platform ''acc1'' 7 ?w'))
         = sent ?w' @ [PingReq ''https://cloud.example.com'' (Some ''tok123''),
                      DeleteFileReq ''https://cloud.example.com'' (Some ''tok123'') ''lib1''
                        ''/Thunderbird-Attachments/report.pdf'']"
    using example_onFileDeleted [OF s(1) cached_world_fields(7) s(2) s(3)]
    by (simp add: sanitize_examples)
  have up: "upload_requests ?w'
         = [UploadReq ''https://cloud.example.com/seafhttp/upload-api/abc?ret-json=1''
              (Some ''tok123'') ''/Thunderbird-Attachments'' example_file None]"
    by (simp add: upload_requests_def is_upload_def)
  from run del up show ?thesis
    by (intro exI [of _ ?w']) simp
qed

end
